theory Spec2Isabelle
  imports Complex_Main
begin

section \<open>Numbers and dates\<close>

text \<open>
  A TypeScript \<open>number\<close> is an IEEE-754 double. A quantity is modelled as a \<open>real\<close>, and
  the result of every arithmetic operation of the source passes through a rounding
  function \<open>rnd\<close>, a parameter of the functions that compute. The arithmetic of the source
  is \<open>toDouble\<close>, which rounds to the nearest double, a tie going to the even significand;
  what is proved for every \<open>rnd\<close> holds for it. The exponent range of a double is not
  modelled, so \<open>toDouble\<close> never overflows and has no subnormal numbers.
\<close>

type_synonym rounding = "real \<Rightarrow> real"

text \<open>
  \<open>ulp_aux n m s\<close> scales \<open>m\<close> by powers of two into \<open>[2^52, 2^53)\<close> in at most \<open>n\<close> steps
  and returns the weight \<open>s\<close> of the last of the 53 bits.
\<close>

fun ulp_aux :: "nat \<Rightarrow> real \<Rightarrow> real \<Rightarrow> real" where
  "ulp_aux 0 m s = s"
| "ulp_aux (Suc n) m s =
     (if m \<ge> 9007199254740992 then ulp_aux n (m / 2) (s * 2)
      else if m < 4503599627370496 then ulp_aux n (m * 2) (s / 2)
      else s)"

definition ulp :: "real \<Rightarrow> real" where
  "ulp x = ulp_aux 2200 \<bar>x\<bar> 1"

definition roundHalfEven :: "real \<Rightarrow> int" where
  "roundHalfEven m =
     (let f = \<lfloor>m\<rfloor> in
      if m - of_int f < 1 / 2 then f
      else if m - of_int f > 1 / 2 then f + 1
      else if even f then f
      else f + 1)"

definition toDouble :: rounding where
  "toDouble x = (if x = 0 then 0 else of_int (roundHalfEven (x / ulp x)) * ulp x)"

text \<open>\<open>Math.round\<close> rounds to the nearest integer, a tie going up.\<close>

definition Math_round :: "real \<Rightarrow> int" where
  "Math_round x = \<lfloor>x + 1 / 2\<rfloor>"

text \<open>\<open>Math.round(x * 1000) / 1000\<close> and \<open>Math.round(x * 100) / 100\<close>.\<close>

definition round3 :: "rounding \<Rightarrow> real \<Rightarrow> real" where
  "round3 rnd x = rnd (of_int (Math_round (rnd (x * 1000))) / 1000)"

definition round2 :: "rounding \<Rightarrow> real \<Rightarrow> real" where
  "round2 rnd x = rnd (of_int (Math_round (rnd (x * 100))) / 100)"

text \<open>
  A \<open>Date\<close> is its time value: milliseconds since the epoch, read in local time (the local
  time zone is fixed and taken to be UTC). \<open>v.date < w.date\<close> compares the time values.
  \<open>days_from_civil y m d\<close> is the day number of the civil date with month \<open>m\<close> in 1..12.
\<close>

type_synonym jsdate = int

definition days_from_civil :: "int \<Rightarrow> int \<Rightarrow> int \<Rightarrow> int" where
  "days_from_civil y m d =
     (let y' = (if m \<le> 2 then y - 1 else y);
          era = y' div 400;
          yoe = y' - era * 400;
          doy = (153 * (if m > 2 then m - 3 else m + 9) + 2) div 5 + d - 1;
          doe = yoe * 365 + yoe div 4 - yoe div 100 + doy
      in era * 146097 + doe - 719468)"

text \<open>
  \<open>new Date(year, monthIndex, day, hours, minutes, seconds)\<close>: a year in 0..99 means
  1900 + year, a month index outside 0..11 carries into the year, and the day of the month
  and the time of day are added as offsets.
\<close>

definition mkDate :: "int \<Rightarrow> int \<Rightarrow> int \<Rightarrow> int \<Rightarrow> int \<Rightarrow> int \<Rightarrow> jsdate" where
  "mkDate year monthIndex day hours minutes seconds =
     (let yr = (if 0 \<le> year \<and> year \<le> 99 then 1900 + year else year);
          ym = yr + monthIndex div 12;
          mn = monthIndex mod 12;
          dayNo = days_from_civil ym (mn + 1) 1 + day - 1
      in dayNo * 86400000 + hours * 3600000 + minutes * 60000 + seconds * 1000)"

text \<open>The civil year and month (1..12) of a day number; \<open>getFullYear\<close> and \<open>getMonth\<close>.\<close>

definition civil_from_days :: "int \<Rightarrow> int \<times> int \<times> int" where
  "civil_from_days z0 =
     (let z = z0 + 719468;
          era = z div 146097;
          doe = z - era * 146097;
          yoe = (doe - doe div 1460 + doe div 36524 - doe div 146096) div 365;
          y = yoe + era * 400;
          doy = doe - (365 * yoe + yoe div 4 - yoe div 100);
          mp = (5 * doy + 2) div 153;
          d = doy - (153 * mp + 2) div 5 + 1;
          m = (if mp < 10 then mp + 3 else mp - 9)
      in (if m \<le> 2 then y + 1 else y, m, d))"

definition getFullYear :: "jsdate \<Rightarrow> int" where
  "getFullYear t = fst (civil_from_days (t div 86400000))"

definition getMonth :: "jsdate \<Rightarrow> int" where
  "getMonth t = fst (snd (civil_from_days (t div 86400000))) - 1"

definition getDate :: "jsdate \<Rightarrow> int" where
  "getDate t = snd (snd (civil_from_days (t div 86400000)))"

section \<open>Strings\<close>

text \<open>
  A string is a list of characters. The model is exact on ASCII text; a character outside
  ASCII is carried along unchanged and is neither white space, nor a digit, nor a letter.
  \<open>isWhiteSpace\<close> is what \<open>trim\<close>, \<open>parseInt\<close> and the class \<open>\s\<close> of a regular
  expression skip; \<open>isLineTerminator\<close> is what the wildcard \<open>.\<close> refuses.
\<close>

definition isWhiteSpace :: "char \<Rightarrow> bool" where
  "isWhiteSpace c = (c \<in> set [CHR 0x09, CHR 0x0A, CHR 0x0B, CHR 0x0C, CHR 0x0D, CHR 0x20])"

definition isLineTerminator :: "char \<Rightarrow> bool" where
  "isLineTerminator c = (c = CHR 0x0A \<or> c = CHR 0x0D)"

definition isDigit :: "char \<Rightarrow> bool" where
  "isDigit c = (c \<in> set ''0123456789'')"

definition upperLetters :: string where
  "upperLetters = ''ABCDEFGHIJKLMNOPQRSTUVWXYZ''"

definition lowerLetters :: string where
  "lowerLetters = ''abcdefghijklmnopqrstuvwxyz''"

definition isLetter :: "char \<Rightarrow> bool" where
  "isLetter c = (c \<in> set upperLetters \<or> c \<in> set lowerLetters)"

definition toLowerChar :: "char \<Rightarrow> char" where
  "toLowerChar c = (case map_of (zip upperLetters lowerLetters) c of Some l \<Rightarrow> l | None \<Rightarrow> c)"

definition toUpperChar :: "char \<Rightarrow> char" where
  "toUpperChar c = (case map_of (zip lowerLetters upperLetters) c of Some u \<Rightarrow> u | None \<Rightarrow> c)"

definition toLowerCase :: "string \<Rightarrow> string" where
  "toLowerCase s = map toLowerChar s"

definition toUpperCase :: "string \<Rightarrow> string" where
  "toUpperCase s = map toUpperChar s"

definition trimStart :: "string \<Rightarrow> string" where
  "trimStart s = dropWhile isWhiteSpace s"

definition trimEnd :: "string \<Rightarrow> string" where
  "trimEnd s = rev (dropWhile isWhiteSpace (rev s))"

definition trim :: "string \<Rightarrow> string" where
  "trim s = trimEnd (trimStart s)"

fun startsWith :: "string \<Rightarrow> string \<Rightarrow> bool" where
  "startsWith s [] = True"
| "startsWith [] (p # ps) = False"
| "startsWith (c # cs) (p # ps) = (c = p \<and> startsWith cs ps)"

text \<open>\<open>s.includes(sub)\<close>: \<open>sub\<close> occurs in \<open>s\<close> at some position.\<close>

fun str_includes :: "string \<Rightarrow> string \<Rightarrow> bool" where
  "str_includes [] sub = (sub = [])"
| "str_includes (c # cs) sub = (startsWith (c # cs) sub \<or> str_includes cs sub)"

text \<open>\<open>s.substring(a, b)\<close> for \<open>0 \<le> a \<le> b\<close>.\<close>

definition substring :: "string \<Rightarrow> nat \<Rightarrow> nat \<Rightarrow> string" where
  "substring s a b = take (b - a) (drop a s)"

definition digitVal :: "char \<Rightarrow> nat" where
  "digitVal c = (case map_of (zip ''0123456789'' [0, 1, 2, 3, 4, 5, 6, 7, 8, 9]) c of
                   Some d \<Rightarrow> d | None \<Rightarrow> 0)"

definition digitsVal :: "string \<Rightarrow> nat" where
  "digitsVal ds = foldl (\<lambda>a c. 10 * a + digitVal c) 0 ds"

text \<open>
  \<open>parseInt(s, 10)\<close>: leading white space and one sign are skipped, then the longest run
  of digits is read and whatever follows it is ignored; \<open>None\<close> is \<open>NaN\<close>, the result when
  no digit is found.
\<close>

definition parseInt :: "string \<Rightarrow> int option" where
  "parseInt s =
     (let s1 = dropWhile isWhiteSpace s;
          neg = (s1 \<noteq> [] \<and> hd s1 = CHR ''-'');
          s2 = (if s1 \<noteq> [] \<and> (hd s1 = CHR ''-'' \<or> hd s1 = CHR ''+'') then tl s1 else s1);
          ds = takeWhile isDigit s2
      in if ds = [] then None
         else Some (if neg then - int (digitsVal ds) else int (digitsVal ds)))"

definition digitChar :: "nat \<Rightarrow> char" where
  "digitChar d = ''0123456789'' ! (d mod 10)"

fun natDigits :: "nat \<Rightarrow> string" where
  "natDigits n = (if n < 10 then [digitChar n] else natDigits (n div 10) @ [digitChar n])"

text \<open>\<open>String(n)\<close> for a whole number \<open>n\<close> (below \<open>10^21\<close>, where the exponent form starts).\<close>

definition intString :: "int \<Rightarrow> string" where
  "intString n = (if n < 0 then ''-'' else []) @ natDigits (nat \<bar>n\<bar>)"

text \<open>
  \<open>parseFloat\<close> is a parameter of the functions that call it: \<open>pf s\<close> is the number read
  from \<open>s\<close>, or \<open>None\<close> for \<open>NaN\<close>.
\<close>

type_synonym parseFloat = "string \<Rightarrow> real option"

text \<open>
  The test \<open>!val\<close> of a function whose argument is declared a string, \<open>undefined\<close> or
  \<open>null\<close>: an absent value and the empty string are false, every other string is true.
\<close>

definition truthy :: "string option \<Rightarrow> bool" where
  "truthy v = (case v of None \<Rightarrow> False | Some s \<Rightarrow> s \<noteq> [])"

section \<open>Printing a date\<close>

text \<open>
  \<open>date.toISOString()\<close>: \<open>YYYY-MM-DDTHH:mm:ss.sssZ\<close>, the year with a sign and six digits
  when it lies outside 0..9999.
\<close>

definition padStart :: "nat \<Rightarrow> string \<Rightarrow> string" where
  "padStart w s = replicate (w - length s) (CHR ''0'') @ s"

definition isoYear :: "int \<Rightarrow> string" where
  "isoYear y =
     (if 0 \<le> y \<and> y \<le> 9999 then padStart 4 (natDigits (nat y))
      else (if y < 0 then ''-'' else ''+'') @ padStart 6 (natDigits (nat \<bar>y\<bar>)))"

definition toISOString :: "jsdate \<Rightarrow> string" where
  "toISOString t =
     (let dayNo = t div 86400000;
          msInDay = t mod 86400000;
          ymd = civil_from_days dayNo;
          hh = msInDay div 3600000;
          mm = msInDay mod 3600000 div 60000;
          ss = msInDay mod 60000 div 1000;
          ms = msInDay mod 1000
      in isoYear (fst ymd) @ ''-'' @ padStart 2 (natDigits (nat (fst (snd ymd))))
           @ ''-'' @ padStart 2 (natDigits (nat (snd (snd ymd))))
           @ ''T'' @ padStart 2 (natDigits (nat hh))
           @ '':'' @ padStart 2 (natDigits (nat mm))
           @ '':'' @ padStart 2 (natDigits (nat ss))
           @ ''.'' @ padStart 3 (natDigits (nat ms)) @ ''Z'')"

section \<open>Values of the parsed document\<close>

text \<open>
  The tree parser delivers an element that has neither attributes nor children as its text,
  an element that has some as an object whose properties are its attributes (under the
  prefixed key), its text (under \<open>#text\<close>) and its children, and a tag of the list of list
  tags, or a tag that occurs several times, as the list of its elements. A property of an
  object is any of the three. The source types the document \<open>any\<close>, so nothing keeps an
  object from the place where the source expects a text.

  \<open>property\<close> reads a property; \<open>None\<close> is \<open>undefined\<close>, which is also what each of the keys
  that the source reads gives on a text and on a list.
\<close>

datatype raw =
    RText string
  | RObj "(string \<times> raw) list"
  | RList "raw list"

definition property :: "raw \<Rightarrow> string \<Rightarrow> raw option" where
  "property r k = (case r of RObj ps \<Rightarrow> map_of ps k | _ \<Rightarrow> None)"

text \<open>The test \<open>if (!raw)\<close> on an element: only the empty text is false.\<close>

definition rawTruthy :: "raw \<Rightarrow> bool" where
  "rawTruthy r = (case r of RText s \<Rightarrow> s \<noteq> [] | _ \<Rightarrow> True)"

text \<open>The same test on a property, and \<open>a || b\<close> on two properties.\<close>

definition truthyV :: "raw option \<Rightarrow> bool" where
  "truthyV v = (case v of None \<Rightarrow> False | Some r \<Rightarrow> rawTruthy r)"

definition orV :: "raw option \<Rightarrow> raw option \<Rightarrow> raw option" where
  "orV a b = (if truthyV a then a else b)"

text \<open>\<open>typeof v === 'string'\<close>.\<close>

definition isText :: "raw option \<Rightarrow> bool" where
  "isText v = (case v of Some (RText s) \<Rightarrow> True | _ \<Rightarrow> False)"

text \<open>
  \<open>String(v)\<close>: a text is itself, an object is \<open>[object Object]\<close>, a list is the strings of
  its elements joined by commas.
\<close>

fun joinComma :: "string list \<Rightarrow> string" where
  "joinComma [] = []"
| "joinComma [s] = s"
| "joinComma (s # t # rest) = s @ '','' @ joinComma (t # rest)"

fun jsString :: "raw \<Rightarrow> string" where
  "jsString (RText s) = s"
| "jsString (RObj ps) = ''[object Object]''"
| "jsString (RList xs) = joinComma (map jsString xs)"

text \<open>\<open>v ? String(v).trim() : undefined\<close>.\<close>

definition trimmedV :: "raw option \<Rightarrow> string option" where
  "trimmedV v = (if truthyV v then Some (trim (jsString (the v))) else None)"

subsection \<open>Exceptions\<close>

text \<open>
  What the source can throw: the tree parser throws with a message of its own, and calling
  \<open>trim\<close> on, or iterating over, a value that has no such method throws a \<open>TypeError\<close>,
  whose message is the engine's and is not modelled. A computation that may throw returns
  \<open>Inl\<close> of what it throws or \<open>Inr\<close> of its result; \<open>thenDo\<close> runs one after another.
\<close>

datatype error = ParseError string | TypeError

definition thenDo :: "error + 'a \<Rightarrow> ('a \<Rightarrow> error + 'b) \<Rightarrow> error + 'b" where
  "thenDo m f = (case m of Inl e \<Rightarrow> Inl e | Inr x \<Rightarrow> f x)"

text \<open>A loop whose body may throw, on the state that the loop updates.\<close>

fun foldThrowing :: "('s \<Rightarrow> 'a \<Rightarrow> error + 's) \<Rightarrow> 's \<Rightarrow> 'a list \<Rightarrow> error + 's" where
  "foldThrowing f s [] = Inr s"
| "foldThrowing f s (x # xs) = thenDo (f s x) (\<lambda>s'. foldThrowing f s' xs)"

text \<open>The results of a function that may throw on the elements of a list, in order.\<close>

definition mapThrowing :: "('a \<Rightarrow> error + 'b) \<Rightarrow> 'a list \<Rightarrow> error + 'b list" where
  "mapThrowing f xs = foldThrowing (\<lambda>acc x. thenDo (f x) (\<lambda>y. Inr (acc @ [y]))) [] xs"

text \<open>
  A function of \<open>extractor.ts\<close>, or one of the same shape, called on a value of the
  document. Each of them returns at once on a false value and calls \<open>trim\<close> on any other:
  on an absent value and on a text it does what it is declared to do, and an object or a
  list, which is true and has no \<open>trim\<close>, makes it throw.
\<close>

definition onText :: "(string option \<Rightarrow> 'a) \<Rightarrow> raw option \<Rightarrow> error + 'a" where
  "onText f v =
     (case v of
        None \<Rightarrow> Inr (f None)
      | Some (RText s) \<Rightarrow> Inr (f (Some s))
      | Some (RObj ps) \<Rightarrow> Inl TypeError
      | Some (RList xs) \<Rightarrow> Inl TypeError)"

text \<open>
  The elements that \<open>for (const x of v || [])\<close> and \<open>[...(v || [])]\<close> run through: those of
  a list, the characters of a text, none when the property is absent; an object is not
  iterable.
\<close>

definition iterate :: "raw option \<Rightarrow> error + raw list" where
  "iterate v =
     (case v of
        None \<Rightarrow> Inr []
      | Some (RText s) \<Rightarrow> Inr (map (\<lambda>c. RText [c]) s)
      | Some (RList xs) \<Rightarrow> Inr xs
      | Some (RObj ps) \<Rightarrow> Inl TypeError)"

text \<open>\<open>v && Array.isArray(v)\<close>, then the elements of \<open>v\<close>.\<close>

definition listOf :: "raw option \<Rightarrow> raw list option" where
  "listOf v = (case v of Some (RList xs) \<Rightarrow> Some xs | _ \<Rightarrow> None)"

section \<open>Canonical data model (types/canonical.ts)\<close>

datatype VoucherType =
    Sales | Purchase | Receipt | Payment | Journal | Contra
  | Debit_Note | Credit_Note | Sales_Order | Purchase_Order
  | Delivery_Note | Receipt_Note | Rejection_In | Rejection_Out
  | Stock_Journal | Other

datatype BillType = New_Ref | Agst_Ref | Advance | On_Account

datatype TaxType = CGST | SGST | IGST | Cess | TDS | Other_Tax

text \<open>
  The types declared in \<open>canonical.ts\<close> are erased when the program runs. A field that the
  normaliser fills with a property of the element as it stands holds whatever the parser
  delivered there, a text in a well-formed export: it is a \<open>raw\<close>. Such are \<open>billRef\<close>,
  \<open>ledgerName\<close>, \<open>stockItemName\<close>, \<open>voucherNumber\<close>, \<open>parent\<close> and the fields of the
  company. Every other field is computed and has its declared type.
\<close>

record CanonicalBillAllocation =
  billRef :: raw
  billType :: BillType
  bill_amount :: real
  dueDate :: "jsdate option"

text \<open>An optional field (\<open>actualQty?: number\<close>) is an \<open>option\<close>; \<open>None\<close> is \<open>undefined\<close>.\<close>

record CanonicalVoucherLine =
  ledgerName :: "raw option"
  stockItemName :: "raw option"
  isDeemedPositive :: bool
  isPartyLedger :: bool
  line_amount :: real
  actualQty :: "real option"
  billedQty :: "real option"
  line_unit :: "string option"
  line_rate :: "real option"
  isTaxLine :: "bool option"
  taxType :: "TaxType option"
  billAllocations :: "CanonicalBillAllocation list"

record CanonicalVoucher =
  vid :: string
  voucherNumber :: raw
  voucherType :: VoucherType
  date :: jsdate
  effectiveDate :: jsdate
  partyName :: "string option"
  voucher_amount :: real
  narration :: "string option"
  voucher_gstin :: "string option"
  placeOfSupply :: "string option"
  irnNumber :: "string option"
  isOptional :: bool
  isCancelled :: bool
  isPostDated :: bool
  isVoid :: bool
  isDeleted :: bool
  lines :: "CanonicalVoucherLine list"

record CanonicalStockItem =
  name :: string
  nameNormalized :: string
  item_group :: string
  baseUnit :: string
  alternateUnit :: "string option"
  alternateConversion :: "real option"
  hsn :: "string option"
  gstRate :: "real option"
  openingQty :: real
  openingValue :: real
  openingRate :: real
  openingFYYear :: int

record CompanyInfo =
  company_name :: raw
  company_gstin :: "raw option"
  company_stateName :: "raw option"
  financialYearBegins :: "raw option"

record CanonicalUnit =
  symbol :: string
  formalName :: string
  isSimple :: bool
  unit_baseUnit :: "string option"
  additionalUnit :: "string option"
  conversion :: "real option"

record CanonicalLedger =
  ledger_name :: string
  ledger_nameNormalized :: string
  parent :: raw
  openingBalance :: real
  ledger_gstin :: "string option"
  ledger_stateName :: "string option"
  email :: "string option"
  phone :: "string option"
  mobile :: "string option"
  creditPeriod :: real

datatype Severity = Fatal | Warn | Info

record ImportWarning =
  w_file :: string
  w_severity :: Severity
  w_element :: string
  w_message :: string

text \<open>
  A \<open>Map\<close> keeps its entries in the order in which their keys were first inserted; it is
  the list of its entries. \<open>map_set\<close> replaces the value of a key that is present, in place,
  and appends a new key. A \<open>Set\<close> is the list of its members in insertion order.
\<close>

type_synonym ('k, 'v) jsmap = "('k \<times> 'v) list"

fun map_set :: "('k, 'v) jsmap \<Rightarrow> 'k \<Rightarrow> 'v \<Rightarrow> ('k, 'v) jsmap" where
  "map_set [] k v = [(k, v)]"
| "map_set ((k', v') # m) k v = (if k' = k then (k, v) # m else (k', v') # map_set m k v)"

definition map_has :: "('k, 'v) jsmap \<Rightarrow> 'k \<Rightarrow> bool" where
  "map_has m k = (k \<in> set (map fst m))"

definition map_get :: "('k, 'v) jsmap \<Rightarrow> 'k \<Rightarrow> 'v option" where
  "map_get m k = map_of m k"

definition map_values :: "('k, 'v) jsmap \<Rightarrow> 'v list" where
  "map_values m = map snd m"

text \<open>\<open>new Map(entries)\<close> and \<open>new Set(members)\<close>.\<close>

definition map_from_entries :: "('k \<times> 'v) list \<Rightarrow> ('k, 'v) jsmap" where
  "map_from_entries es = foldl (\<lambda>m e. map_set m (fst e) (snd e)) [] es"

definition set_add :: "'a list \<Rightarrow> 'a \<Rightarrow> 'a list" where
  "set_add xs x = (if x \<in> set xs then xs else xs @ [x])"

definition set_from_list :: "'a list \<Rightarrow> 'a list" where
  "set_from_list xs = foldl set_add [] xs"

record ParsedData =
  company :: "CompanyInfo option"
  ledgers :: "(string, CanonicalLedger) jsmap"
  stockItems :: "(string, CanonicalStockItem) jsmap"
  units :: "(string, CanonicalUnit) jsmap"
  vouchers :: "CanonicalVoucher list"
  importedAt :: jsdate
  sourceFiles :: "string list"
  warnings :: "ImportWarning list"

section \<open>Fiscal years (engine/financial.ts)\<close>

record FYBounds =
  fy_start :: jsdate
  fy_end :: jsdate

definition getFYBounds :: "int \<Rightarrow> FYBounds" where
  "getFYBounds fyStartYear =
     \<lparr> fy_start = mkDate fyStartYear 3 1 0 0 0,
       fy_end = mkDate (fyStartYear + 1) 2 31 23 59 59 \<rparr>"

definition getFYFromDate :: "jsdate \<Rightarrow> int" where
  "getFYFromDate d = (if getMonth d \<ge> 3 then getFullYear d else getFullYear d - 1)"

text \<open>\<open>new Date()\<close> reads the clock; the current instant is the parameter \<open>now\<close>.\<close>

definition getCurrentFYStartYear :: "jsdate \<Rightarrow> int" where
  "getCurrentFYStartYear now = getFYFromDate now"

section \<open>Stock-ledger engine (engine/inventory.ts)\<close>

record InventoryPeriod =
  itemName :: string
  period_unit :: string
  periodStart :: jsdate
  periodEnd :: jsdate
  period_openingQty :: real
  inwardQty :: real
  outwardQty :: real
  closingQty :: real
  inwardVoucherCount :: nat
  outwardVoucherCount :: nat

text \<open>The predicate of \<open>vouchers.filter\<close>: the vouchers that can move stock.\<close>

definition isEffective :: "jsdate \<Rightarrow> CanonicalVoucher \<Rightarrow> bool" where
  "isEffective now v =
     (if isOptional v then False
      else if isCancelled v then False
      else if isVoid v then False
      else if isDeleted v then False
      else if isPostDated v \<and> date v > now then False
      else True)"

text \<open>The body of the inner loop of the opening walk, on the running \<open>openingQty\<close>.\<close>

definition openingLine :: "rounding \<Rightarrow> string \<Rightarrow> real \<Rightarrow> CanonicalVoucherLine \<Rightarrow> real" where
  "openingLine rnd nm acc line =
     (if stockItemName line \<noteq> Some (RText nm) then acc
      else case actualQty line of
             None \<Rightarrow> acc
           | Some q \<Rightarrow>
               if q = 0 then acc
               else if isDeemedPositive line then rnd (acc + q)
               else rnd (acc - q))"

definition openingVoucher ::
  "rounding \<Rightarrow> jsdate \<Rightarrow> jsdate \<Rightarrow> string \<Rightarrow> real \<Rightarrow> CanonicalVoucher \<Rightarrow> real" where
  "openingVoucher rnd fyStart pStart nm acc v =
     (if date v < fyStart then acc
      else if date v \<ge> pStart then acc
      else foldl (openingLine rnd nm) acc (lines v))"

text \<open>
  The state of the second loop: \<open>inwardQty\<close>, \<open>outwardQty\<close> and the two \<open>Set<string>\<close> of
  voucher ids, each kept as the list of its members in insertion order.
\<close>

record MoveState =
  ms_inward :: real
  ms_outward :: real
  ms_inwardIds :: "string list"
  ms_outwardIds :: "string list"

definition moveLine ::
  "rounding \<Rightarrow> string \<Rightarrow> string \<Rightarrow> MoveState \<Rightarrow> CanonicalVoucherLine \<Rightarrow> MoveState" where
  "moveLine rnd nm v_id st line =
     (if stockItemName line \<noteq> Some (RText nm) then st
      else case actualQty line of
             None \<Rightarrow> st
           | Some q \<Rightarrow>
               if q = 0 then st
               else if isDeemedPositive line
                 then st\<lparr> ms_inward := rnd (ms_inward st + q),
                          ms_inwardIds := set_add (ms_inwardIds st) v_id \<rparr>
                 else st\<lparr> ms_outward := rnd (ms_outward st + q),
                          ms_outwardIds := set_add (ms_outwardIds st) v_id \<rparr>)"

definition moveVoucher ::
  "rounding \<Rightarrow> jsdate \<Rightarrow> jsdate \<Rightarrow> string \<Rightarrow> MoveState \<Rightarrow> CanonicalVoucher \<Rightarrow> MoveState" where
  "moveVoucher rnd pStart pEnd nm st v =
     (if date v < pStart then st
      else if date v > pEnd then st
      else foldl (moveLine rnd nm (vid v)) st (lines v))"

definition computeItemInventory ::
  "rounding \<Rightarrow> jsdate \<Rightarrow> CanonicalStockItem \<Rightarrow> CanonicalVoucher list \<Rightarrow> int \<Rightarrow> jsdate \<Rightarrow> jsdate
     \<Rightarrow> InventoryPeriod" where
  "computeItemInventory rnd now item allVouchers fyStartYear pStart pEnd =
     (let fyBounds = getFYBounds fyStartYear;
          effectiveVouchers = filter (isEffective now) allVouchers;
          opening = foldl (openingVoucher rnd (fy_start fyBounds) pStart (name item))
                      (openingQty item) effectiveVouchers;
          st = foldl (moveVoucher rnd pStart pEnd (name item))
                 \<lparr> ms_inward = 0, ms_outward = 0, ms_inwardIds = [], ms_outwardIds = [] \<rparr>
                 effectiveVouchers
      in \<lparr> itemName = name item,
           period_unit = baseUnit item,
           periodStart = pStart,
           periodEnd = pEnd,
           period_openingQty = round3 rnd opening,
           inwardQty = round3 rnd (ms_inward st),
           outwardQty = round3 rnd (ms_outward st),
           closingQty = round3 rnd (rnd (rnd (opening + ms_inward st) - ms_outward st)),
           inwardVoucherCount = length (ms_inwardIds st),
           outwardVoucherCount = length (ms_outwardIds st) \<rparr>)"

text \<open>
  \<open>validateInventory\<close>, the first check of its loop body: the period is flagged when the
  recomputed closing differs from the returned one by more than 0.001.
\<close>

definition closingMismatch :: "rounding \<Rightarrow> InventoryPeriod \<Rightarrow> bool" where
  "closingMismatch rnd p =
     (let computed = rnd (rnd (period_openingQty p + inwardQty p) - outwardQty p)
      in \<bar>rnd (computed - closingQty p)\<bar> > rnd (1 / 1000))"

section \<open>Unit conversion (engine/units.ts)\<close>

datatype UnitMode = BASE | PKG

datatype ConfigSource = Tally | Manual

record ItemUnitConfig =
  cfg_itemName :: string
  cfg_baseUnit :: string
  pkgUnit :: string
  unitsPerPkg :: real
  cfg_source :: ConfigSource

record FormattedQty =
  fq_value :: real
  fq_label :: string
  formatted :: string

text \<open>\<open>n.toFixed(2)\<close>: the sign, then the magnitude rounded to hundredths, a tie going up.\<close>

definition toFixed2 :: "real \<Rightarrow> string" where
  "toFixed2 x =
     (let h = nat \<lfloor>\<bar>x\<bar> * 100 + 1 / 2\<rfloor>
      in (if x < 0 then ''-'' else []) @ natDigits (h div 100) @ ''.''
           @ [digitChar (h mod 100 div 10), digitChar (h mod 10)])"

text \<open>\<open>s.replace(/\.?0+$/, "")\<close>: the zeros at the end go, and a dot that stood before them.\<close>

definition stripTrailingZeros :: "string \<Rightarrow> string" where
  "stripTrailingZeros s =
     (let r = dropWhile (\<lambda>c. c = CHR ''0'') (rev s)
      in if length r = length s then s
         else if r \<noteq> [] \<and> hd r = CHR ''.'' then rev (tl r)
         else rev r)"

definition formatNumber :: "real \<Rightarrow> string" where
  "formatNumber n =
     (if n = of_int \<lfloor>n\<rfloor> then intString \<lfloor>n\<rfloor> else stripTrailingZeros (toFixed2 n))"

text \<open>The test \<open>mode === "PKG" && config && config.unitsPerPkg > 0\<close> of both functions.\<close>

definition pkgDisplay :: "ItemUnitConfig option \<Rightarrow> UnitMode \<Rightarrow> bool" where
  "pkgDisplay config mode =
     (mode = PKG \<and> (case config of None \<Rightarrow> False | Some c \<Rightarrow> unitsPerPkg c > 0))"

definition formatQty ::
  "rounding \<Rightarrow> real \<Rightarrow> ItemUnitConfig option \<Rightarrow> UnitMode \<Rightarrow> FormattedQty" where
  "formatQty rnd baseQty config mode =
     (if pkgDisplay config mode then
        (let pkgQty = rnd (baseQty / unitsPerPkg (the config));
             rounded = round2 rnd pkgQty
         in \<lparr> fq_value = rounded,
              fq_label = pkgUnit (the config),
              formatted = formatNumber rounded @ '' '' @ pkgUnit (the config) \<rparr>)
      else
        (let rounded = round2 rnd baseQty;
             label = (case config of None \<Rightarrow> ''PCS'' | Some c \<Rightarrow> cfg_baseUnit c)
         in \<lparr> fq_value = rounded,
              fq_label = label,
              formatted = formatNumber rounded @ '' '' @ label \<rparr>))"

definition toBase :: "rounding \<Rightarrow> real \<Rightarrow> ItemUnitConfig option \<Rightarrow> UnitMode \<Rightarrow> real" where
  "toBase rnd displayQty config mode =
     (if pkgDisplay config mode then rnd (displayQty * unitsPerPkg (the config)) else displayQty)"

section \<open>The data store (store/dataStore.ts)\<close>

record DataState =
  st_data :: "ParsedData option"
  st_loading :: bool
  st_error :: "string option"

text \<open>\<open>emptyData\<close> is built once, when the module is loaded, at the instant \<open>loadTime\<close>.\<close>

definition emptyData :: "jsdate \<Rightarrow> ParsedData" where
  "emptyData loadTime =
     \<lparr> company = None, ledgers = [], stockItems = [], units = [], vouchers = [],
       importedAt = loadTime, sourceFiles = [], warnings = [] \<rparr>"

definition initialState :: DataState where
  "initialState = \<lparr> st_data = None, st_loading = False, st_error = None \<rparr>"

definition setData :: "DataState \<Rightarrow> ParsedData \<Rightarrow> DataState" where
  "setData st d = st\<lparr> st_data := Some d, st_error := None \<rparr>"

text \<open>The loop that fills \<open>voucherMap\<close>: a voucher enters only if its id is not yet a key.\<close>

definition addVoucher ::
  "(string, CanonicalVoucher) jsmap \<Rightarrow> CanonicalVoucher \<Rightarrow> (string, CanonicalVoucher) jsmap" where
  "addVoucher m v = (if \<not> map_has m (vid v) then map_set m (vid v) v else m)"

definition mergeData :: "jsdate \<Rightarrow> jsdate \<Rightarrow> DataState \<Rightarrow> ParsedData \<Rightarrow> DataState" where
  "mergeData loadTime now st newData =
     (let current = (case st_data st of None \<Rightarrow> emptyData loadTime | Some d \<Rightarrow> d);
          mergedLedgers = map_from_entries (ledgers current @ ledgers newData);
          mergedStockItems = map_from_entries (stockItems current @ stockItems newData);
          mergedUnits = map_from_entries (units current @ units newData);
          voucherMap = foldl addVoucher [] (vouchers current @ vouchers newData);
          merged =
            \<lparr> company = (case company newData of None \<Rightarrow> company current | Some c \<Rightarrow> Some c),
              ledgers = mergedLedgers,
              stockItems = mergedStockItems,
              units = mergedUnits,
              vouchers = map_values voucherMap,
              importedAt = now,
              sourceFiles = set_from_list (sourceFiles current @ sourceFiles newData),
              warnings = warnings current @ warnings newData \<rparr>
      in st\<lparr> st_data := Some merged, st_error := None \<rparr>)"

definition clearData :: "DataState \<Rightarrow> DataState" where
  "clearData st = st\<lparr> st_data := None, st_error := None \<rparr>"

definition getAllVouchers :: "DataState \<Rightarrow> CanonicalVoucher list" where
  "getAllVouchers st = (case st_data st of None \<Rightarrow> [] | Some d \<Rightarrow> vouchers d)"

text \<open>
  The pages of the application change the store through \<open>mergeData\<close> (a batch that the
  worker has answered) and \<open>clearData\<close> only; \<open>setData\<close> has no caller. \<open>runStore\<close> is the
  state of the store after a sequence of such calls, each \<open>mergeData\<close> at its own instant.
\<close>

datatype StoreCall = MergeData jsdate ParsedData | ClearData

fun callStore :: "jsdate \<Rightarrow> DataState \<Rightarrow> StoreCall \<Rightarrow> DataState" where
  "callStore loadTime st (MergeData now newData) = mergeData loadTime now st newData"
| "callStore loadTime st ClearData = clearData st"

definition runStore :: "jsdate \<Rightarrow> StoreCall list \<Rightarrow> DataState" where
  "runStore loadTime calls = foldl (callStore loadTime) initialState calls"

section \<open>Field extraction (xml/extractor.ts)\<close>

definition parseQuantity :: "parseFloat \<Rightarrow> string option \<Rightarrow> real" where
  "parseQuantity pf val =
     (if \<not> truthy val then 0
      else let trimmed = trim (the val) in
        if trimmed = [] then 0
        else case pf trimmed of None \<Rightarrow> 0 | Some parsed \<Rightarrow> parsed)"

definition parseAmount :: "parseFloat \<Rightarrow> string option \<Rightarrow> real" where
  "parseAmount pf val = parseQuantity pf val"

text \<open>The match of \<open>/^-?[\d.]+/\<close>: an optional minus, then the digits and dots that follow.\<close>

definition rateMatch :: "string \<Rightarrow> string option" where
  "rateMatch s =
     (let sign = (if s \<noteq> [] \<and> hd s = CHR ''-'' then ''-'' else []);
          body = takeWhile (\<lambda>c. isDigit c \<or> c = CHR ''.'') (drop (length sign) s)
      in if body = [] then None else Some (sign @ body))"

definition parseRate :: "parseFloat \<Rightarrow> string option \<Rightarrow> real" where
  "parseRate pf val =
     (if \<not> truthy val then 0
      else case rateMatch (trim (the val)) of
             None \<Rightarrow> 0
           | Some m \<Rightarrow> (case pf m of None \<Rightarrow> 0 | Some parsed \<Rightarrow> parsed))"

text \<open>
  \<open>parseTallyDate\<close>: \<open>None\<close> is \<open>undefined\<close>. The three parts are read with \<open>parseInt\<close>,
  and the date is built with \<open>new Date(year, month - 1, day)\<close>.
\<close>

definition parseTallyDate :: "string option \<Rightarrow> jsdate option" where
  "parseTallyDate val =
     (if \<not> truthy val then None
      else let trimmed = trim (the val) in
        if length trimmed \<noteq> 8 then None
        else case (parseInt (substring trimmed 0 4),
                   parseInt (substring trimmed 4 6),
                   parseInt (substring trimmed 6 8)) of
               (Some year, Some month, Some day) \<Rightarrow>
                 if month < 1 \<or> month > 12 then None
                 else if day < 1 \<or> day > 31 then None
                 else Some (mkDate year (month - 1) day 0 0 0)
             | _ \<Rightarrow> None)"

definition parseTallyBool :: "string option \<Rightarrow> bool" where
  "parseTallyBool val =
     (if \<not> truthy val then False else toLowerCase (trim (the val)) = ''yes'')"

definition normalizeUnitString :: "string option \<Rightarrow> string" where
  "normalizeUnitString val = (if \<not> truthy val then [] else toUpperCase (trim (the val)))"

text \<open>
  \<open>normalizeGroupName\<close> removes the match of \<open>/\s*\(\s*\d+\s*\)\s*$/\<close>: a parenthesised
  number at the end of the string, with the white space around and inside it. The string is
  read from its end.
\<close>

definition stripGroupSuffix :: "string \<Rightarrow> string" where
  "stripGroupSuffix s =
     (let r1 = dropWhile isWhiteSpace (rev s) in
      if r1 = [] \<or> hd r1 \<noteq> CHR '')'' then s
      else let r2 = dropWhile isWhiteSpace (tl r1);
               ds = takeWhile isDigit r2;
               r3 = dropWhile isWhiteSpace (dropWhile isDigit r2)
           in if ds = [] \<or> r3 = [] \<or> hd r3 \<noteq> CHR ''('' then s
              else rev (dropWhile isWhiteSpace (tl r3)))"

definition normalizeGroupName :: "string option \<Rightarrow> string" where
  "normalizeGroupName val = (if \<not> truthy val then [] else stripGroupSuffix (trim (the val)))"

definition normalizeName :: "string option \<Rightarrow> string" where
  "normalizeName val = (if \<not> truthy val then [] else toUpperCase (trim (the val)))"

section \<open>Sanitising the decoded text (xml/sanitizer.ts)\<close>

text \<open>
  \<open>stripXmlDeclaration\<close> removes the match of \<open>/^<\?xml\s+.*?\?>\s*/i\<close>, if there is one.
  After \<open><?xml\<close> (in either case) the white space is skipped, at least one character of
  it; \<open>findDeclEnd\<close> then looks for the first \<open>?>\<close> and gives up at a line terminator,
  which the wildcard does not cross; the white space after \<open>?>\<close> belongs to the match.
\<close>

fun findDeclEnd :: "string \<Rightarrow> string option" where
  "findDeclEnd [] = None"
| "findDeclEnd (c # cs) =
     (if startsWith (c # cs) ''?>'' then Some (tl cs)
      else if isLineTerminator c then None
      else findDeclEnd cs)"

definition stripXmlDeclaration :: "string \<Rightarrow> string" where
  "stripXmlDeclaration xml =
     (if toLowerCase (take 5 xml) = ''<?xml'' then
        (let r = drop 5 xml;
             r1 = dropWhile isWhiteSpace r
         in if length r1 = length r then xml
            else case findDeclEnd r1 of
                   None \<Rightarrow> xml
                 | Some rest \<Rightarrow> dropWhile isWhiteSpace rest)
      else xml)"

text \<open>
  The match of \<open>/&#([0-9]+);/\<close> at the head of a string: the digits captured and the text
  after the semicolon.
\<close>

definition decRef :: "string \<Rightarrow> (string \<times> string) option" where
  "decRef s =
     (if startsWith s ''&#'' then
        (let ds = takeWhile isDigit (drop 2 s);
             r = dropWhile isDigit (drop 2 s)
         in if ds \<noteq> [] \<and> r \<noteq> [] \<and> hd r = CHR '';'' then Some (ds, tl r) else None)
      else None)"

text \<open>The replacement callback: what is written for the reference \<open>&#numStr;\<close>.\<close>

definition controlReplacement :: "string \<Rightarrow> string" where
  "controlReplacement numStr =
     (let code = digitsVal numStr;
          whole = ''&#'' @ numStr @ '';''
      in if code = 9 \<or> code = 10 \<or> code = 13 then whole
         else if code < 32 then []
         else whole)"

function stripIllegalControlChars :: "string \<Rightarrow> string" where
  "stripIllegalControlChars [] = []"
| "stripIllegalControlChars (c # cs) =
     (case decRef (c # cs) of
        Some (numStr, rest) \<Rightarrow> controlReplacement numStr @ stripIllegalControlChars rest
      | None \<Rightarrow> c # stripIllegalControlChars cs)"
  by pat_completeness auto
termination
proof (relation "measure length")
  show "wf (measure length)" by simp
next
  fix c cs x2 numStr rest
  assume "decRef (c # cs) = Some x2" and "(numStr, rest) = x2"
  then have "rest = tl (dropWhile isDigit (drop 2 (c # cs)))"
    by (auto simp add: decRef_def Let_def split: if_splits)
  moreover have "length (dropWhile isDigit (drop 2 (c # cs))) \<le> length (drop 2 (c # cs))"
    by (rule length_dropWhile_le)
  ultimately show "(rest, c # cs) \<in> measure length"
    by simp
next
  fix c cs
  show "(cs, c # cs) \<in> measure length" by simp
qed

text \<open>
  The look-ahead of \<open>/&(?!(?:[a-zA-Z]+|#[0-9]+);)/\<close>, on the text after an ampersand:
  letters and a semicolon, or \<open>#\<close>, digits and a semicolon.
\<close>

definition entityAhead :: "string \<Rightarrow> bool" where
  "entityAhead s =
     ((let ls = takeWhile isLetter s; r = dropWhile isLetter s
       in ls \<noteq> [] \<and> r \<noteq> [] \<and> hd r = CHR '';'')
      \<or> (s \<noteq> [] \<and> hd s = CHR ''#'' \<and>
          (let ds = takeWhile isDigit (tl s); r = dropWhile isDigit (tl s)
           in ds \<noteq> [] \<and> r \<noteq> [] \<and> hd r = CHR '';'')))"

fun fixUnescapedAmpersands :: "string \<Rightarrow> string" where
  "fixUnescapedAmpersands [] = []"
| "fixUnescapedAmpersands (c # cs) =
     (if c = CHR ''&'' \<and> \<not> entityAhead cs then ''&amp;'' @ fixUnescapedAmpersands cs
      else c # fixUnescapedAmpersands cs)"

definition sanitizeXml :: "string \<Rightarrow> string" where
  "sanitizeXml xml =
     (let clean1 = stripXmlDeclaration xml;
          clean2 = stripIllegalControlChars clean1;
          clean3 = fixUnescapedAmpersands clean2
      in clean3)"

section \<open>Normalising the parsed document (xml/normalizer.ts)\<close>

text \<open>\<open>a || d\<close> where \<open>d\<close> is a literal of the source.\<close>

definition orLit :: "raw option \<Rightarrow> string \<Rightarrow> raw" where
  "orLit a d = (if truthyV a then the a else RText d)"

definition extractName :: "raw \<Rightarrow> string" where
  "extractName r =
     (if \<not> rawTruthy r then []
      else if truthyV (property r ''@_NAME'') then trim (jsString (the (property r ''@_NAME'')))
      else if truthyV (property r ''@NAME'') then trim (jsString (the (property r ''@NAME'')))
      else if truthyV (property r ''NAME'') \<and> isText (property r ''NAME'')
        then trim (jsString (the (property r ''NAME'')))
      else case listOf (property r ''NAME.LIST'') of
             Some (first # rest) \<Rightarrow>
               if truthyV (property first ''NAME'') then trim (jsString (the (property first ''NAME'')))
               else []
           | _ \<Rightarrow> [])"

text \<open>
  \<open>normalizeStockItem\<close>; \<open>Inr None\<close> is \<open>null\<close>. Its second argument, the units, is not
  read.
\<close>

definition normalizeStockItem ::
  "rounding \<Rightarrow> parseFloat \<Rightarrow> jsdate \<Rightarrow> raw \<Rightarrow> (string, CanonicalUnit) jsmap
     \<Rightarrow> error + CanonicalStockItem option" where
  "normalizeStockItem rnd pf now r unitMap =
     (if \<not> rawTruthy r then Inr None
      else let nm = extractName r in
        if nm = [] then Inr None
        else
          (let nmNormalized = normalizeName (Some nm);
               baseUnitRaw = orLit (orV (property r ''BASEUNITS'') (property r ''@BASEUNITS'')) ''PCS''
           in
           thenDo (onText normalizeUnitString (Some baseUnitRaw)) (\<lambda>bUnit.
           thenDo (onText (parseQuantity pf) (property r ''OPENINGBALANCE'')) (\<lambda>oQty.
           thenDo (onText (parseAmount pf) (property r ''OPENINGVALUE'')) (\<lambda>oValueSigned.
           let oValue = \<bar>oValueSigned\<bar> in
           thenDo (if oQty > 0 then Inr (rnd (oValue / oQty))
                   else onText (parseRate pf) (property r ''OPENINGRATE'')) (\<lambda>oRate.
           let parentRaw = orLit (orV (property r ''PARENT'') (property r ''@PARENT'')) [] in
           thenDo (onText normalizeGroupName (Some parentRaw)) (\<lambda>grp.
           thenDo (if truthyV (property r ''ADDITIONALUNITS'')
                   then thenDo (onText normalizeUnitString (property r ''ADDITIONALUNITS''))
                          (\<lambda>u. Inr (Some u))
                   else Inr None) (\<lambda>altUnit.
           thenDo (if truthyV (property r ''ADDITIONALUNITS'') \<and> truthyV (property r ''CONVERSION'')
                   then thenDo (onText (parseQuantity pf) (property r ''CONVERSION''))
                          (\<lambda>c. Inr (Some c))
                   else Inr None) (\<lambda>altConversion.
           let gst = (case listOf (property r ''GSTDETAILS.LIST'') of
                        Some (g # rest) \<Rightarrow> if rawTruthy g then Some g else None
                      | _ \<Rightarrow> None);
               hsnRaw = (case gst of None \<Rightarrow> None
                         | Some g \<Rightarrow> orV (property g ''HSNCODE'') (property g ''HSNUMBER''));
               hsnVal = (if truthyV hsnRaw then Some (trim (jsString (the hsnRaw)))
                         else case hsnRaw of Some (RText s) \<Rightarrow> Some s | _ \<Rightarrow> None);
               gstRateStr = (case gst of None \<Rightarrow> None
                             | Some g \<Rightarrow> orV (property g ''GSTRATE'') (property g ''TAXRATE''))
           in
           thenDo (if truthyV gstRateStr
                   then thenDo (onText (parseRate pf) gstRateStr) (\<lambda>x. Inr (Some x))
                   else Inr None) (\<lambda>gstRateVal.
           let fyYear = getCurrentFYStartYear now
           in Inr (Some \<lparr> name = nm,
                          nameNormalized = nmNormalized,
                          item_group = grp,
                          baseUnit = bUnit,
                          alternateUnit = altUnit,
                          alternateConversion = altConversion,
                          hsn = hsnVal,
                          gstRate = gstRateVal,
                          openingQty = oQty,
                          openingValue = oValue,
                          openingRate = oRate,
                          openingFYYear = fyYear \<rparr>)))))))))))"

definition normalizeUnit :: "parseFloat \<Rightarrow> raw \<Rightarrow> error + CanonicalUnit option" where
  "normalizeUnit pf r =
     (if \<not> rawTruthy r then Inr None
      else let nm = extractName r in
        if nm = [] then Inr None
        else
          (let sym = normalizeUnitString (Some nm);
               simple = \<lparr> symbol = sym, formalName = nm, isSimple = True,
                          unit_baseUnit = None, additionalUnit = None, conversion = None \<rparr>
           in
           thenDo (onText parseTallyBool (property r ''ISSIMPLEUNIT'')) (\<lambda>simpleFlag.
           if simpleFlag then Inr (Some simple)
           else if \<not> truthyV (property r ''BASEUNITS'') \<or> \<not> truthyV (property r ''ADDITIONALUNITS'')
             then Inr (Some simple)
           else
             thenDo (onText normalizeUnitString (property r ''BASEUNITS'')) (\<lambda>b.
             thenDo (onText normalizeUnitString (property r ''ADDITIONALUNITS'')) (\<lambda>a.
             thenDo (onText (parseQuantity pf) (property r ''CONVERSION'')) (\<lambda>c.
             Inr (Some \<lparr> symbol = sym, formalName = nm, isSimple = False,
                          unit_baseUnit = Some b,
                          additionalUnit = Some a,
                          conversion = Some c \<rparr>)))))))"

definition normalizeLedger :: "parseFloat \<Rightarrow> raw \<Rightarrow> error + CanonicalLedger option" where
  "normalizeLedger pf r =
     (if \<not> rawTruthy r then Inr None
      else let nm = extractName r in
        if nm = [] then Inr None
        else
          (let parentRaw = orLit (orV (property r ''PARENT'') (property r ''@PARENT'')) [] in
           thenDo (onText (parseAmount pf) (property r ''OPENINGBALANCE'')) (\<lambda>oBalance.
           let creditPeriodStr = orLit (orV (property r ''CREDITPERIOD'') (property r ''CREDITDAYS'')) ''0'' in
           thenDo (onText (parseQuantity pf) (Some creditPeriodStr)) (\<lambda>cPeriod.
           Inr (Some \<lparr> ledger_name = nm,
                        ledger_nameNormalized = normalizeName (Some nm),
                        parent = parentRaw,
                        openingBalance = oBalance,
                        ledger_gstin = trimmedV (orV (property r ''GSTIN'') (property r ''PARTYGSTIN'')),
                        ledger_stateName =
                          trimmedV (orV (property r ''STATENAME'') (property r ''LEDSTATENAME'')),
                        email = trimmedV (orV (property r ''EMAIL'') (property r ''EMAILID'')),
                        phone = trimmedV (orV (property r ''PHONE'') (property r ''PHONENUMBER'')),
                        mobile = trimmedV (orV (property r ''MOBILE'') (property r ''MOBILENUMBER'')),
                        creditPeriod = cPeriod \<rparr>)))))"

text \<open>The rules of \<open>normalizeVoucherType\<close>, in the order of the source; the first match wins.\<close>

definition voucherTypeRules :: "(string \<times> VoucherType) list" where
  "voucherTypeRules =
     [(''sales'', Sales), (''purchase'', Purchase), (''receipt'', Receipt),
      (''payment'', Payment), (''journal'', Journal), (''contra'', Contra),
      (''debit note'', Debit_Note), (''credit note'', Credit_Note),
      (''sales order'', Sales_Order), (''purchase order'', Purchase_Order),
      (''delivery note'', Delivery_Note), (''receipt note'', Receipt_Note),
      (''rejection in'', Rejection_In), (''rejection out'', Rejection_Out),
      (''stock journal'', Stock_Journal)]"

fun firstRule :: "(string \<times> 'a) list \<Rightarrow> 'a \<Rightarrow> string \<Rightarrow> 'a" where
  "firstRule [] dflt s = dflt"
| "firstRule ((pat, res) # rules) dflt s =
     (if str_includes s pat then res else firstRule rules dflt s)"

definition normalizeVoucherType :: "string option \<Rightarrow> VoucherType" where
  "normalizeVoucherType r =
     (if \<not> truthy r then Other
      else firstRule voucherTypeRules Other (toLowerCase (trim (the r))))"

definition normalizeBillType :: "string option \<Rightarrow> BillType" where
  "normalizeBillType r =
     (if \<not> truthy r then On_Account
      else firstRule [(''new ref'', New_Ref), (''agst ref'', Agst_Ref), (''advance'', Advance)]
             On_Account (toLowerCase (trim (the r))))"

definition detectTaxType :: "string \<Rightarrow> TaxType option" where
  "detectTaxType lname =
     (if lname = [] then None
      else firstRule [(''cgst'', Some CGST), (''sgst'', Some SGST), (''igst'', Some IGST),
                      (''cess'', Some Cess), (''tds'', Some TDS),
                      (''tax'', Some Other_Tax), (''gst'', Some Other_Tax)]
             None (toLowerCase (trim lname)))"

text \<open>
  \<open>normalizeInventoryEntry\<close>. The name of the item is the extracted name or, when there is
  none, the property \<open>STOCKITEMNAME\<close> as it stands.
\<close>

definition normalizeInventoryEntry :: "parseFloat \<Rightarrow> raw \<Rightarrow> error + CanonicalVoucherLine" where
  "normalizeInventoryEntry pf r =
     (let sName = orLit (orV (Some (RText (extractName r))) (property r ''STOCKITEMNAME'')) [] in
      thenDo (onText (parseQuantity pf) (property r ''ACTUALQTY'')) (\<lambda>aQty.
      thenDo (onText (parseQuantity pf) (property r ''BILLEDQTY'')) (\<lambda>bQty.
      thenDo (onText (parseRate pf) (property r ''RATE'')) (\<lambda>rt.
      thenDo (onText (parseAmount pf) (property r ''AMOUNT'')) (\<lambda>amt.
      let unitRaw = orLit (orV (property r ''UNIT'') (property r ''UOM'')) ''PCS'' in
      thenDo (onText normalizeUnitString (Some unitRaw)) (\<lambda>u.
      thenDo (onText parseTallyBool (property r ''ISDEEMEDPOSITIVE'')) (\<lambda>pos.
      Inr \<lparr> ledgerName = None,
            stockItemName = Some sName,
            isDeemedPositive = pos,
            isPartyLedger = False,
            line_amount = amt,
            actualQty = Some aQty,
            billedQty = Some bQty,
            line_unit = Some u,
            line_rate = Some rt,
            isTaxLine = None,
            taxType = None,
            billAllocations = [] \<rparr>)))))))"

text \<open>
  One turn of the loop over \<open>BILLALLOCATIONS.LIST\<close>: an entry without reference is skipped
  (\<open>Inr None\<close>).
\<close>

definition normalizeBill :: "parseFloat \<Rightarrow> raw \<Rightarrow> error + CanonicalBillAllocation option" where
  "normalizeBill pf b =
     (let ref = orLit (orV (property b ''NAME'') (property b ''BILLNAME'')) []
      in if \<not> rawTruthy ref then Inr None
         else
           (let billTypeRaw = orLit (property b ''BILLTYPE'') ''On Account'' in
            thenDo (onText normalizeBillType (Some billTypeRaw)) (\<lambda>bType.
            thenDo (onText (parseAmount pf) (property b ''AMOUNT'')) (\<lambda>amt.
            thenDo (onText parseTallyDate (orV (property b ''DUEDATE'') (property b ''BILLDATE''))) (\<lambda>due.
            Inr (Some \<lparr> billRef = ref,
                         billType = bType,
                         bill_amount = \<bar>amt\<bar>,
                         dueDate = due \<rparr>))))))"

text \<open>
  \<open>normalizeLedgerEntry\<close>. The name of the ledger is the extracted name or, when there is
  none, the property \<open>LEDGERNAME\<close> as it stands, on which \<open>detectTaxType\<close> calls \<open>trim\<close>.
\<close>

definition normalizeLedgerEntry :: "parseFloat \<Rightarrow> raw \<Rightarrow> error + CanonicalVoucherLine list" where
  "normalizeLedgerEntry pf r =
     (let lName = orLit (orV (Some (RText (extractName r))) (property r ''LEDGERNAME'')) []
      in if \<not> rawTruthy lName then Inr []
         else
           thenDo (onText (parseAmount pf) (property r ''AMOUNT'')) (\<lambda>amt.
           thenDo (onText parseTallyBool (property r ''ISDEEMEDPOSITIVE'')) (\<lambda>pos.
           thenDo (onText parseTallyBool (property r ''ISPARTYLEDGER'')) (\<lambda>party.
           thenDo (onText (\<lambda>t. detectTaxType (case t of None \<Rightarrow> [] | Some s \<Rightarrow> s)) (Some lName))
             (\<lambda>tType.
           thenDo (case listOf (property r ''BILLALLOCATIONS.LIST'') of
                     None \<Rightarrow> Inr []
                   | Some bs \<Rightarrow> mapThrowing (normalizeBill pf) bs) (\<lambda>bills.
           Inr [\<lparr> ledgerName = Some lName,
                  stockItemName = None,
                  isDeemedPositive = pos,
                  isPartyLedger = party,
                  line_amount = amt,
                  actualQty = None,
                  billedQty = None,
                  line_unit = None,
                  line_rate = None,
                  isTaxLine = Some (tType \<noteq> None),
                  taxType = tType,
                  billAllocations = List.map_filter (\<lambda>b. b) bills \<rparr>]))))))"

definition voucherTypeName :: "VoucherType \<Rightarrow> string" where
  "voucherTypeName t =
     (case t of
        Sales \<Rightarrow> ''Sales'' | Purchase \<Rightarrow> ''Purchase'' | Receipt \<Rightarrow> ''Receipt''
      | Payment \<Rightarrow> ''Payment'' | Journal \<Rightarrow> ''Journal'' | Contra \<Rightarrow> ''Contra''
      | Debit_Note \<Rightarrow> ''Debit Note'' | Credit_Note \<Rightarrow> ''Credit Note''
      | Sales_Order \<Rightarrow> ''Sales Order'' | Purchase_Order \<Rightarrow> ''Purchase Order''
      | Delivery_Note \<Rightarrow> ''Delivery Note'' | Receipt_Note \<Rightarrow> ''Receipt Note''
      | Rejection_In \<Rightarrow> ''Rejection In'' | Rejection_Out \<Rightarrow> ''Rejection Out''
      | Stock_Journal \<Rightarrow> ''Stock Journal'' | Other \<Rightarrow> ''Other'')"

text \<open>The total of a voucher: the party line if there is one, else the inventory lines.\<close>

definition voucherAmount :: "rounding \<Rightarrow> CanonicalVoucherLine list \<Rightarrow> real" where
  "voucherAmount rnd ls =
     (case find isPartyLedger ls of
        Some partyLine \<Rightarrow> \<bar>line_amount partyLine\<bar>
      | None \<Rightarrow> foldl (\<lambda>sum l. rnd (sum + \<bar>line_amount l\<bar>)) 0
                 (filter (\<lambda>l. truthyV (stockItemName l)) ls))"

text \<open>
  \<open>normalizeVoucher\<close>; \<open>Inr None\<close> is \<open>null\<close>: the element is empty, has no voucher number,
  or its date does not parse. Nothing else is returned or recorded in these three cases.
  The type of the voucher is read before its date, and both with \<open>trim\<close>.
\<close>

definition normalizeVoucher ::
  "rounding \<Rightarrow> parseFloat \<Rightarrow> raw \<Rightarrow> error + CanonicalVoucher option" where
  "normalizeVoucher rnd pf r =
     (if \<not> rawTruthy r then Inr None
      else let vNumber = orLit (orV (property r ''VOUCHERNUMBER'') (property r ''@VOUCHERNUMBER'')) []
      in if \<not> rawTruthy vNumber then Inr None
         else
           (let vTypeRaw = orLit (orV (property r ''VOUCHERTYPE'') (property r ''VOUCHERTYPENAME'')) ''Other''
            in
            thenDo (onText normalizeVoucherType (Some vTypeRaw)) (\<lambda>vType.
            let dateStr = orV (property r ''DATE'') (property r ''@DATE'') in
            thenDo (onText parseTallyDate dateStr) (\<lambda>parsedDate.
            case parsedDate of
              None \<Rightarrow> Inr None
            | Some d \<Rightarrow>
                (let effectiveDateStr = orV (property r ''EFFECTIVEDATE'') dateStr in
                 thenDo (onText parseTallyDate effectiveDateStr) (\<lambda>parsedEffective.
                 let effDate = (case parsedEffective of None \<Rightarrow> d | Some e \<Rightarrow> e) in
                 thenDo (onText parseTallyBool (property r ''ISOPTIONAL'')) (\<lambda>optional.
                 thenDo (onText parseTallyBool (property r ''ISCANCELLED'')) (\<lambda>cancelled.
                 thenDo (onText parseTallyBool (property r ''ISPOSTDATED'')) (\<lambda>postDated.
                 thenDo (onText parseTallyBool (property r ''ISVOID'')) (\<lambda>void.
                 thenDo (onText parseTallyBool (property r ''ISDELETED'')) (\<lambda>deleted.
                 thenDo (iterate (property r ''ALLLEDGERENTRIES.LIST'')) (\<lambda>allLedgerEntries.
                 thenDo (iterate (property r ''LEDGERENTRIES.LIST'')) (\<lambda>ledgerEntries.
                 thenDo (mapThrowing (normalizeLedgerEntry pf) (allLedgerEntries @ ledgerEntries))
                   (\<lambda>ledgerLines.
                 thenDo (iterate (property r ''ALLINVENTORYENTRIES.LIST'')) (\<lambda>allInventoryEntries.
                 thenDo (iterate (property r ''INVENTORYENTRIES.LIST'')) (\<lambda>inventoryEntries.
                 thenDo (mapThrowing (normalizeInventoryEntry pf)
                           (allInventoryEntries @ inventoryEntries)) (\<lambda>inventoryLines.
                 let ls = concat ledgerLines @ inventoryLines
                 in Inr (Some
                      \<lparr> vid = voucherTypeName vType @ ''|'' @ jsString vNumber @ ''|''
                                @ toISOString d,
                        voucherNumber = vNumber,
                        voucherType = vType,
                        date = d,
                        effectiveDate = effDate,
                        partyName = trimmedV (orV (property r ''PARTYNAME'')
                                                 (property r ''PARTYLEDGERNAME'')),
                        voucher_amount = voucherAmount rnd ls,
                        narration = trimmedV (property r ''NARRATION''),
                        voucher_gstin = trimmedV (orV (property r ''PARTYGSTIN'')
                                                     (property r ''CONSIGNEEGSTIN'')),
                        placeOfSupply = trimmedV (property r ''PLACEOFSUPPLY''),
                        irnNumber = trimmedV (orV (property r ''IRN'') (property r ''IRNNUMBER'')),
                        isOptional = optional,
                        isCancelled = cancelled,
                        isPostDated = postDated,
                        isVoid = void,
                        isDeleted = deleted,
                        lines = ls \<rparr>))))))))))))))))))"

section \<open>Parsing one file (workers/xmlParser.worker.ts)\<close>

text \<open>
  The worker sanitises the bytes, runs the tree parser and locates the list of message
  blocks; the tree parser is a library and may throw. What follows takes the outcome of
  these steps: the message blocks, or the message of the exception.
\<close>

definition initialParsedData :: "jsdate \<Rightarrow> string \<Rightarrow> ParsedData" where
  "initialParsedData now fileName =
     \<lparr> company = None, ledgers = [], stockItems = [], units = [], vouchers = [],
       importedAt = now, sourceFiles = [fileName], warnings = [] \<rparr>"

text \<open>
  The loop over \<open>msg.COMPANY\<close>, a single company being the list of that one element:
  the first company that has a name is taken, its properties as they stand.
\<close>

definition extractCompany :: "ParsedData \<Rightarrow> raw \<Rightarrow> ParsedData" where
  "extractCompany pd msg =
     (let companies = (if truthyV (property msg ''COMPANY'')
                       then (case the (property msg ''COMPANY'') of RList cs \<Rightarrow> cs | c \<Rightarrow> [c])
                       else [])
      in case find (\<lambda>c. truthyV (property c ''NAME'')) companies of
           None \<Rightarrow> pd
         | Some c \<Rightarrow>
             pd\<lparr> company := Some
                   \<lparr> company_name = the (property c ''NAME''),
                     company_gstin = orV (property c ''GSTIN'') (property c ''COMPANYGSTREGISTRATIONNO''),
                     company_stateName = property c ''STATENAME'',
                     financialYearBegins = property c ''COMPANYFISCALYEARSTARTMONTH'' \<rparr> \<rparr>)"

definition extractUnit :: "parseFloat \<Rightarrow> ParsedData \<Rightarrow> raw \<Rightarrow> error + ParsedData" where
  "extractUnit pf pd unitRaw =
     thenDo (normalizeUnit pf unitRaw) (\<lambda>normalized.
       Inr (case normalized of
              None \<Rightarrow> pd
            | Some u \<Rightarrow> pd\<lparr> units := map_set (units pd) (symbol u) u \<rparr>))"

definition extractLedger :: "parseFloat \<Rightarrow> ParsedData \<Rightarrow> raw \<Rightarrow> error + ParsedData" where
  "extractLedger pf pd ledgerRaw =
     thenDo (normalizeLedger pf ledgerRaw) (\<lambda>normalized.
       Inr (case normalized of
              None \<Rightarrow> pd
            | Some l \<Rightarrow> pd\<lparr> ledgers := map_set (ledgers pd) (ledger_nameNormalized l) l \<rparr>))"

definition extractStockItem ::
  "rounding \<Rightarrow> parseFloat \<Rightarrow> jsdate \<Rightarrow> ParsedData \<Rightarrow> raw \<Rightarrow> error + ParsedData" where
  "extractStockItem rnd pf now pd itemRaw =
     thenDo (normalizeStockItem rnd pf now itemRaw (units pd)) (\<lambda>normalized.
       Inr (case normalized of
              None \<Rightarrow> pd
            | Some i \<Rightarrow> pd\<lparr> stockItems := map_set (stockItems pd) (nameNormalized i) i \<rparr>))"

text \<open>
  The loop over \<open>VOUCHER.LIST\<close>: a voucher that \<open>normalizeVoucher\<close> returns is pushed, a
  \<open>null\<close> is passed over, and in both cases the loop goes on; an exception leaves the loop.
\<close>

definition extractVoucher ::
  "rounding \<Rightarrow> parseFloat \<Rightarrow> ParsedData \<Rightarrow> raw \<Rightarrow> error + ParsedData" where
  "extractVoucher rnd pf pd voucherRaw =
     thenDo (normalizeVoucher rnd pf voucherRaw) (\<lambda>normalized.
       Inr (case normalized of
              None \<Rightarrow> pd
            | Some v \<Rightarrow> pd\<lparr> vouchers := vouchers pd @ [v] \<rparr>))"

definition processMessage ::
  "rounding \<Rightarrow> parseFloat \<Rightarrow> jsdate \<Rightarrow> ParsedData \<Rightarrow> raw \<Rightarrow> error + ParsedData" where
  "processMessage rnd pf now pd msg =
     (let pd1 = extractCompany pd msg in
      thenDo (iterate (property msg ''UNIT.LIST'')) (\<lambda>unitsList.
      thenDo (foldThrowing (extractUnit pf) pd1 unitsList) (\<lambda>pd2.
      thenDo (iterate (property msg ''LEDGER.LIST'')) (\<lambda>ledgersList.
      thenDo (foldThrowing (extractLedger pf) pd2 ledgersList) (\<lambda>pd3.
      thenDo (iterate (property msg ''STOCKITEM.LIST'')) (\<lambda>stockItemsList.
      thenDo (foldThrowing (extractStockItem rnd pf now) pd3 stockItemsList) (\<lambda>pd4.
      thenDo (iterate (property msg ''VOUCHER.LIST'')) (\<lambda>vouchersList.
      foldThrowing (extractVoucher rnd pf) pd4 vouchersList))))))))"

definition processMessages ::
  "rounding \<Rightarrow> parseFloat \<Rightarrow> jsdate \<Rightarrow> string \<Rightarrow> raw list \<Rightarrow> error + ParsedData" where
  "processMessages rnd pf now fileName tallyMessages =
     foldThrowing (processMessage rnd pf now) (initialParsedData now fileName) tallyMessages"

text \<open>
  The response of the worker: the batch, or, when anything between the first step and the
  last has thrown, an error for the whole file; the \<open>catch\<close> encloses all the steps.
\<close>

datatype WorkerResponse =
    Success ParsedData string
  | Failure error string

definition respond ::
  "rounding \<Rightarrow> parseFloat \<Rightarrow> jsdate \<Rightarrow> string \<Rightarrow> string + raw list \<Rightarrow> WorkerResponse" where
  "respond rnd pf now fileName outcome =
     (case outcome of
        Inl thrown \<Rightarrow> Failure (ParseError thrown) fileName
      | Inr tallyMessages \<Rightarrow>
          (case processMessages rnd pf now fileName tallyMessages of
             Inl e \<Rightarrow> Failure e fileName
           | Inr parsedData \<Rightarrow> Success parsedData fileName))"

section \<open>The stock-ledger engine: the opening as the specification words it\<close>

text \<open>
  The opening of a period as the specification words it: the master opening plus, for every
  effective voucher dated from the start of the fiscal year up to, and excluding, the start
  of the period, and for every line of it that names the item, the quantity of the line,
  added when the line is deemed positive and subtracted when it is not; the total rounded to
  3 decimal places. These definitions are written from those words and use nothing of the
  engine. The arithmetic is the parameter \<open>rnd\<close>: the quantities enter the total one after
  the other, in the order of the vouchers and of their lines, and a quantity of zero leaves
  the total as it is.
\<close>

definition effective_spec :: "jsdate \<Rightarrow> CanonicalVoucher \<Rightarrow> bool" where
  "effective_spec now v =
     (\<not> isOptional v \<and> \<not> isCancelled v \<and> \<not> isVoid v \<and> \<not> isDeleted v
      \<and> \<not> (isPostDated v \<and> now < date v))"

text \<open>The fiscal year that starts in the year \<open>fy\<close> starts on 1 April of that year, at 00:00.\<close>

definition fiscalYearStart :: "int \<Rightarrow> jsdate" where
  "fiscalYearStart fy = mkDate fy 3 1 0 0 0"

definition signedQty :: "CanonicalVoucherLine \<Rightarrow> real" where
  "signedQty l =
     (case actualQty l of None \<Rightarrow> 0 | Some q \<Rightarrow> if isDeemedPositive l then q else - q)"

definition addQuantity :: "rounding \<Rightarrow> real \<Rightarrow> real \<Rightarrow> real" where
  "addQuantity rnd acc q = (if q = 0 then acc else rnd (acc + q))"

text \<open>The nearest whole number, the upper one of two that are equally near.\<close>

definition nearestInteger :: "real \<Rightarrow> int" where
  "nearestInteger x = (if x - of_int \<lfloor>x\<rfloor> < 1 / 2 then \<lfloor>x\<rfloor> else \<lfloor>x\<rfloor> + 1)"

text \<open>Rounding to \<open>n\<close> decimal places: the nearest whole number of units of the last place.\<close>

definition roundedTo :: "nat \<Rightarrow> rounding \<Rightarrow> real \<Rightarrow> real" where
  "roundedTo n rnd x = rnd (of_int (nearestInteger (rnd (x * 10 ^ n))) / 10 ^ n)"

definition spec_openingQty ::
  "rounding \<Rightarrow> jsdate \<Rightarrow> CanonicalStockItem \<Rightarrow> CanonicalVoucher list \<Rightarrow> int \<Rightarrow> jsdate \<Rightarrow> real" where
  "spec_openingQty rnd now item vs fy ps =
     roundedTo 3 rnd
       (foldl (addQuantity rnd) (openingQty item)
          (map signedQty
             (concat (map (\<lambda>v. filter (\<lambda>l. stockItemName l = Some (RText (name item))) (lines v))
                        (filter (\<lambda>v. effective_spec now v
                                     \<and> fiscalYearStart fy \<le> date v \<and> date v < ps) vs)))))"

subsection \<open>Sample data\<close>

definition sample_item :: CanonicalStockItem where
  "sample_item =
     \<lparr> name = ''BELL CROWN MINI'', nameNormalized = ''BELL CROWN MINI'', item_group = ''BELLS'',
       baseUnit = ''PCS'', alternateUnit = None, alternateConversion = None, hsn = None,
       gstRate = None, openingQty = 10, openingValue = 0, openingRate = 0,
       openingFYYear = 2024 \<rparr>"

definition sample_line :: "bool \<Rightarrow> real \<Rightarrow> CanonicalVoucherLine" where
  "sample_line pos q =
     \<lparr> ledgerName = None, stockItemName = Some (RText ''BELL CROWN MINI''), isDeemedPositive = pos,
       isPartyLedger = False, line_amount = 0, actualQty = Some q, billedQty = Some q,
       line_unit = Some ''PCS'', line_rate = Some 0, isTaxLine = None, taxType = None,
       billAllocations = [] \<rparr>"

definition sample_voucher ::
  "string \<Rightarrow> VoucherType \<Rightarrow> jsdate \<Rightarrow> bool \<Rightarrow> CanonicalVoucherLine list \<Rightarrow> CanonicalVoucher" where
  "sample_voucher i ty d opt ls =
     \<lparr> vid = i, voucherNumber = RText i, voucherType = ty, date = d, effectiveDate = d,
       partyName = None, voucher_amount = 0, narration = None, voucher_gstin = None,
       placeOfSupply = None, irnNumber = None, isOptional = opt, isCancelled = False,
       isPostDated = False, isVoid = False, isDeleted = False, lines = ls \<rparr>"

section \<open>Merging: first seen wins\<close>

text \<open>
  The vouchers of a list that are the first of their id, those with an id in \<open>seen\<close>
  left out: what a union by identity key that keeps the first-seen voucher retains.
\<close>

fun firstSeen :: "string list \<Rightarrow> CanonicalVoucher list \<Rightarrow> CanonicalVoucher list" where
  "firstSeen seen [] = []"
| "firstSeen seen (v # vs) =
     (if vid v \<in> set seen then firstSeen seen vs else v # firstSeen (vid v # seen) vs)"

definition sample_batch :: "CanonicalVoucher list \<Rightarrow> ParsedData" where
  "sample_batch vs =
     \<lparr> company = None, ledgers = [], stockItems = [], units = [], vouchers = vs,
       importedAt = 0, sourceFiles = [''Transactions.xml''], warnings = [] \<rparr>"

section \<open>Unit conversion: the quantity shown\<close>

text \<open>The quantity that \<open>formatQty\<close> rounds: packages in package display, base units otherwise.\<close>

definition displayedQty :: "real \<Rightarrow> ItemUnitConfig option \<Rightarrow> UnitMode \<Rightarrow> real" where
  "displayedQty q config mode =
     (if pkgDisplay config mode then q / unitsPerPkg (the config) else q)"

definition sample_config :: ItemUnitConfig where
  "sample_config = \<lparr> cfg_itemName = ''BELL CROWN MINI'', cfg_baseUnit = ''PCS'',
                      pkgUnit = ''BOX'', unitsPerPkg = 12, cfg_source = Manual \<rparr>"

section \<open>Clean markup\<close>

text \<open>
  The text after an ampersand is a named reference when it is letters and a semicolon, and
  a decimal character reference, with its code point, when it is \<open>#\<close>, digits and a
  semicolon. A code point below 32 is legal only if it is 9, 10 or 13. In \<open>cleanRefs\<close> every
  ampersand starts a named reference or a decimal reference to a legal code point.
\<close>

definition namedRefAhead :: "string \<Rightarrow> bool" where
  "namedRefAhead s = (takeWhile isLetter s \<noteq> [] \<and> startsWith (dropWhile isLetter s) '';'')"

definition decimalRefAhead :: "string \<Rightarrow> nat option" where
  "decimalRefAhead s =
     (if startsWith s ''#'' \<and> takeWhile isDigit (tl s) \<noteq> []
         \<and> startsWith (dropWhile isDigit (tl s)) '';''
      then Some (digitsVal (takeWhile isDigit (tl s))) else None)"

definition legalCodePoint :: "nat \<Rightarrow> bool" where
  "legalCodePoint n = (n \<ge> 32 \<or> n = 9 \<or> n = 10 \<or> n = 13)"

fun cleanRefs :: "string \<Rightarrow> bool" where
  "cleanRefs [] = True"
| "cleanRefs (c # cs) =
     ((if c = CHR ''&''
       then namedRefAhead cs
            \<or> (case decimalRefAhead cs of None \<Rightarrow> False | Some n \<Rightarrow> legalCodePoint n)
       else True)
      \<and> cleanRefs cs)"

section \<open>Sample input\<close>

text \<open>
  A reader of plain decimal literals, standing for \<open>parseFloat\<close> in the examples: the
  double nearest to the decimal number read.
\<close>

definition parseDecimal :: parseFloat where
  "parseDecimal s =
     (let neg = (s \<noteq> [] \<and> hd s = CHR ''-'');
          body = (if neg then tl s else s);
          ip = takeWhile isDigit body;
          r = dropWhile isDigit body;
          fp = (if r \<noteq> [] \<and> hd r = CHR ''.'' then takeWhile isDigit (tl r) else [])
      in if ip = [] \<and> fp = [] then None
         else Some (toDouble ((if neg then - 1 else 1)
                     * (real (digitsVal ip) + real (digitsVal fp) / 10 ^ length fp))))"

definition sample_stock_element :: raw where
  "sample_stock_element =
     RObj [(''@NAME'', RText ''Bell Crown Mini''), (''BASEUNITS'', RText ''pcs''),
           (''OPENINGBALANCE'', RText ''10.5''), (''PARENT'', RText ''BELLS ( 8306 )'')]"

section \<open>The worker: a voucher whose date fails to parse\<close>

text \<open>
  A value of the document that is a text, or absent, and the text that it is. The date of a
  \<open>VOUCHER\<close> element is its \<open>DATE\<close> or else its attribute of that name; it fails to parse
  when it is absent, or is a text from which \<open>parseTallyDate\<close> reads no date. The type of
  the element, which the normaliser reads before the date, is its \<open>VOUCHERTYPE\<close> or else its
  \<open>VOUCHERTYPENAME\<close>.
\<close>

definition textOrAbsent :: "raw option \<Rightarrow> bool" where
  "textOrAbsent v = (case v of None \<Rightarrow> True | Some (RText s) \<Rightarrow> True | Some _ \<Rightarrow> False)"

definition textOf :: "raw option \<Rightarrow> string option" where
  "textOf v = (case v of Some (RText s) \<Rightarrow> Some s | _ \<Rightarrow> None)"

definition dateFailsToParse :: "raw \<Rightarrow> bool" where
  "dateFailsToParse r =
     (textOrAbsent (orV (property r ''DATE'') (property r ''@DATE''))
      \<and> parseTallyDate (textOf (orV (property r ''DATE'') (property r ''@DATE''))) = None)"

definition voucherTypeIsText :: "raw \<Rightarrow> bool" where
  "voucherTypeIsText r =
     textOrAbsent (orV (property r ''VOUCHERTYPE'') (property r ''VOUCHERTYPENAME''))"

text \<open>A document of three vouchers, the second with a date that is not of 8 characters.\<close>

definition sample_voucher_element :: "string \<Rightarrow> raw \<Rightarrow> raw" where
  "sample_voucher_element n d =
     RObj [(''VOUCHERNUMBER'', RText n), (''VOUCHERTYPENAME'', RText ''Sales''), (''DATE'', d)]"

definition sample_message :: "raw list \<Rightarrow> raw" where
  "sample_message vs = RObj [(''VOUCHER.LIST'', RList vs)]"

section \<open>Evaluating the rounding to a double\<close>

text \<open>
  \<open>ulp\<close> searches the weight of the last bit by repeated halving or doubling. Once the
  exponent \<open>k\<close> is known the search need not be run: two bounds determine its result.
\<close>

lemma ulp_aux_done:
  "4503599627370496 \<le> m \<Longrightarrow> m < 9007199254740992 \<Longrightarrow> ulp_aux (Suc n) m s = s"
  by simp

lemma ulp_aux_up:
  "m * 2 ^ k \<ge> 4503599627370496 \<Longrightarrow> m * 2 ^ k < 9007199254740992 \<Longrightarrow> m > 0
   \<Longrightarrow> ulp_aux (Suc (k + n)) m s = s / 2 ^ k"
proof (induction k arbitrary: m s)
  case 0
  then show ?case by simp
next
  case (Suc k)
  have lt: "m < 4503599627370496"
  proof (rule ccontr)
    assume "\<not> m < 4503599627370496"
    then have "m \<ge> 4503599627370496" by simp
    then have "m * 2 ^ Suc k \<ge> 4503599627370496 * 2 ^ Suc k"
      by (intro mult_right_mono) simp_all
    moreover have "(2::real) ^ Suc k \<ge> 2" 
      using one_le_power[of "2::real" k] by simp
    ultimately have "m * 2 ^ Suc k \<ge> 4503599627370496 * 2" 
      by (smt (verit) mult_left_mono)
    with Suc.prems(2) show False by simp
  qed
  have "ulp_aux (Suc (k + n)) (m * 2) (s / 2) = s / 2 / 2 ^ k"
    using Suc.prems by (intro Suc.IH) (simp_all add: mult.assoc)
  with lt show ?case by simp
qed

lemma ulp_aux_down:
  "m / 2 ^ k \<ge> 4503599627370496 \<Longrightarrow> m / 2 ^ k < 9007199254740992
   \<Longrightarrow> ulp_aux (Suc (k + n)) m s = s * 2 ^ k"
proof (induction k arbitrary: m s)
  case 0
  then show ?case by simp
next
  case (Suc k)
  have ge: "m \<ge> 9007199254740992"
  proof (rule ccontr)
    assume "\<not> m \<ge> 9007199254740992"
    then have "m < 9007199254740992" by simp
    moreover have "(2::real) ^ Suc k \<ge> 2"
      using one_le_power[of "2::real" k] by simp
    ultimately have "m < 4503599627370496 * 2 ^ Suc k" by (smt (verit) mult_left_mono)
    then have "m / 2 ^ Suc k < 4503599627370496" by (simp add: field_simps)
    with Suc.prems(1) show False by simp
  qed
  have "ulp_aux (Suc (k + n)) (m / 2) (s * 2) = s * 2 * 2 ^ k"
    using Suc.prems by (intro Suc.IH) (simp_all add: field_simps)
  with ge show ?case by simp
qed

lemma ulp_up:
  assumes "\<bar>x\<bar> * 2 ^ k \<ge> 4503599627370496" "\<bar>x\<bar> * 2 ^ k < 9007199254740992" "x \<noteq> 0" "k < 2200"
  shows "ulp x = 1 / 2 ^ k"
proof -
  obtain n where n: "2200 = Suc (k + n)" using assms(4) by (metis add_Suc less_iff_Suc_add)
  show ?thesis unfolding ulp_def n using assms by (intro ulp_aux_up) simp_all
qed

lemma ulp_down:
  assumes "\<bar>x\<bar> / 2 ^ k \<ge> 4503599627370496" "\<bar>x\<bar> / 2 ^ k < 9007199254740992" "k < 2200"
  shows "ulp x = 2 ^ k"
proof -
  obtain n where n: "2200 = Suc (k + n)" using assms(3) by (metis add_Suc less_iff_Suc_add)
  have "ulp_aux (Suc (k + n)) \<bar>x\<bar> 1 = 1 * 2 ^ k" using assms by (intro ulp_aux_down) simp_all
  then show ?thesis unfolding ulp_def n by simp
qed

lemma toDouble_up:
  assumes "\<bar>x\<bar> * 2 ^ k \<ge> 4503599627370496" "\<bar>x\<bar> * 2 ^ k < 9007199254740992" "x \<noteq> 0" "k < 2200"
    and "roundHalfEven (x * 2 ^ k) = r" "y = of_int r / 2 ^ k"
  shows "toDouble x = y"
  using assms(3,5,6) by (simp add: toDouble_def ulp_up[OF assms(1-4)])

lemma toDouble_down:
  assumes "\<bar>x\<bar> / 2 ^ k \<ge> 4503599627370496" "\<bar>x\<bar> / 2 ^ k < 9007199254740992" "x \<noteq> 0" "k < 2200"
    and "roundHalfEven (x / 2 ^ k) = r" "y = of_int r * 2 ^ k"
  shows "toDouble x = y"
  using assms(3,5,6) by (simp add: toDouble_def ulp_down[OF assms(1,2,4)])

lemma dbl_zero: "toDouble 0 = 0"
  by (simp add: toDouble_def)

section \<open>Properties of the computations that may throw\<close>

lemma thenDo_Inr: "thenDo m f = Inr y \<Longrightarrow> \<exists>x. m = Inr x \<and> f x = Inr y"
  by (cases m) (simp_all add: thenDo_def)

lemma thenDo_returned: "thenDo (Inr x) f = f x"
  by (simp add: thenDo_def)

lemma iterate_list: "iterate (Some (RList L)) = Inr L"
  by (simp add: iterate_def)

lemma foldThrowing_append:
  "foldThrowing f s (xs @ ys) = thenDo (foldThrowing f s xs) (\<lambda>s'. foldThrowing f s' ys)"
  by (induction xs arbitrary: s) (simp_all add: thenDo_def split: sum.splits)

lemma foldThrowing_skip:
  assumes "\<And>s. f s x = Inr s"
  shows "foldThrowing f s (xs @ x # ys) = foldThrowing f s (xs @ ys)"
  by (simp add: foldThrowing_append assms thenDo_def)

lemma foldThrowing_cong_elem:
  assumes "\<And>s. f s x = f s y"
  shows "foldThrowing f s (xs @ x # ys) = foldThrowing f s (xs @ y # ys)"
  by (simp add: foldThrowing_append assms)

lemma foldThrowing_invariant:
  assumes "\<And>s x s'. f s x = Inr s' \<Longrightarrow> g s' = g s" "foldThrowing f s xs = Inr s'"
  shows "g s' = g s"
  using assms(2)
proof (induction xs arbitrary: s)
  case Nil
  then show ?case by simp
next
  case (Cons x xs)
  from Cons.prems obtain s1 where s1: "f s x = Inr s1" "foldThrowing f s1 xs = Inr s'"
    by (cases "f s x") (simp_all add: thenDo_def)
  have "g s' = g s1" by (rule Cons.IH) (rule s1(2))
  also have "g s1 = g s" by (rule assms(1)) (rule s1(1))
  finally show ?case .
qed

section \<open>Properties of the stock-ledger engine\<close>

lemma Math_round_lower: "x - 1 / 2 < of_int (Math_round x)"
  unfolding Math_round_def by linarith

lemma Math_round_upper: "of_int (Math_round x) \<le> x + 1 / 2"
  unfolding Math_round_def by linarith

text \<open>
  Four roundings move the balance by strictly less than two units of the last place, and the
  difference of the rounded values is a whole number of such units: so it is at most one.
\<close>

lemma round_sum_int:
  "\<bar>Math_round a + Math_round b - Math_round c - Math_round (a + b - c)\<bar> \<le> 1"
proof -
  let ?k = "Math_round a + Math_round b - Math_round c - Math_round (a + b - c)"
  have "(of_int ?k :: real) < 2"
    using Math_round_upper[of a] Math_round_upper[of b]
          Math_round_lower[of c] Math_round_lower[of "a + b - c"]
    by simp
  moreover have "(of_int ?k :: real) > - 2"
    using Math_round_lower[of a] Math_round_lower[of b]
          Math_round_upper[of c] Math_round_upper[of "a + b - c"]
    by simp
  ultimately have "?k < 2" "?k > - 2" by linarith+
  then show ?thesis by linarith
qed

lemma abs_div_1000: "\<bar>r\<bar> \<le> 1 \<Longrightarrow> \<bar>r / 1000\<bar> \<le> 1 / 1000" for r :: real
  by simp

lemma round3_reals: "round3 (\<lambda>x. x) x = of_int (Math_round (x * 1000)) / 1000"
  by (simp add: round3_def)

lemma round3_sum:
  "\<bar>round3 (\<lambda>x. x) a + round3 (\<lambda>x. x) b - round3 (\<lambda>x. x) c - round3 (\<lambda>x. x) (a + b - c)\<bar>
     \<le> 1 / 1000"
proof -
  let ?k = "Math_round (a * 1000) + Math_round (b * 1000) - Math_round (c * 1000)
              - Math_round ((a + b - c) * 1000)"
  have e: "(a + b - c) * 1000 = a * 1000 + b * 1000 - c * 1000"
    by (simp add: algebra_simps)
  have "\<bar>?k\<bar> \<le> 1" unfolding e by (rule round_sum_int)
  then have k: "\<bar>(of_int ?k :: real)\<bar> \<le> 1" by linarith
  have eq: "round3 (\<lambda>x. x) a + round3 (\<lambda>x. x) b - round3 (\<lambda>x. x) c - round3 (\<lambda>x. x) (a + b - c)
              = of_int ?k / 1000"
    unfolding round3_reals by (simp add: field_simps)
  show ?thesis unfolding eq by (rule abs_div_1000[OF k])
qed

text \<open>The four quantities of the returned period, read off the definition.\<close>

lemma cii_fields:
  "period_openingQty (computeItemInventory rnd now item vs fy ps pe) =
     round3 rnd (foldl (openingVoucher rnd (fy_start (getFYBounds fy)) ps (name item))
                   (openingQty item) (filter (isEffective now) vs))"
  "inwardQty (computeItemInventory rnd now item vs fy ps pe) =
     round3 rnd (ms_inward (foldl (moveVoucher rnd ps pe (name item))
                 \<lparr> ms_inward = 0, ms_outward = 0, ms_inwardIds = [], ms_outwardIds = [] \<rparr>
                 (filter (isEffective now) vs)))"
  "outwardQty (computeItemInventory rnd now item vs fy ps pe) =
     round3 rnd (ms_outward (foldl (moveVoucher rnd ps pe (name item))
                 \<lparr> ms_inward = 0, ms_outward = 0, ms_inwardIds = [], ms_outwardIds = [] \<rparr>
                 (filter (isEffective now) vs)))"
  "closingQty (computeItemInventory rnd now item vs fy ps pe) =
     round3 rnd (rnd (rnd (foldl (openingVoucher rnd (fy_start (getFYBounds fy)) ps (name item))
                             (openingQty item) (filter (isEffective now) vs)
       + ms_inward (foldl (moveVoucher rnd ps pe (name item))
                 \<lparr> ms_inward = 0, ms_outward = 0, ms_inwardIds = [], ms_outwardIds = [] \<rparr>
                 (filter (isEffective now) vs)))
       - ms_outward (foldl (moveVoucher rnd ps pe (name item))
                 \<lparr> ms_inward = 0, ms_outward = 0, ms_inwardIds = [], ms_outwardIds = [] \<rparr>
                 (filter (isEffective now) vs))))"
  by (simp_all add: computeItemInventory_def Let_def)

text \<open>
  Were the arithmetic that of the reals (no operation rounds, \<open>rnd\<close> is the identity), the
  four returned quantities would balance up to 0.001: the closing is rounded from the
  unrounded total, not recomputed from the rounded fields, which is why the identity would
  hold up to one unit of the third place and not exactly.
\<close>

lemma computeItemInventory_balance_reals:
  "\<bar>period_openingQty (computeItemInventory (\<lambda>x. x) now item vs fy ps pe)
     + inwardQty (computeItemInventory (\<lambda>x. x) now item vs fy ps pe)
     - outwardQty (computeItemInventory (\<lambda>x. x) now item vs fy ps pe)
     - closingQty (computeItemInventory (\<lambda>x. x) now item vs fy ps pe)\<bar> \<le> 1 / 1000"
  unfolding cii_fields by (rule round3_sum)

lemma computeItemInventory_no_mismatch_reals:
  "\<not> closingMismatch (\<lambda>x. x) (computeItemInventory (\<lambda>x. x) now item vs fy ps pe)"
  using computeItemInventory_balance_reals[of now item vs fy ps pe]
  by (simp add: closingMismatch_def Let_def)

text \<open>
  The bound would be attained: an opening of 0.0001 and an inward movement of 0.0094 are
  returned as 0 and 0.009, and the closing, rounded from their total 0.0095, as 0.01.
\<close>

lemma computeItemInventory_balance_attained:
  "period_openingQty (computeItemInventory (\<lambda>x. x) 1735689600000 (sample_item\<lparr>openingQty := 1 / 10000\<rparr>)
       [sample_voucher ''P1'' Purchase 1718150400000 False [sample_line True (94 / 10000)]]
       2024 1717200000000 1719791999000)
   + inwardQty (computeItemInventory (\<lambda>x. x) 1735689600000 (sample_item\<lparr>openingQty := 1 / 10000\<rparr>)
       [sample_voucher ''P1'' Purchase 1718150400000 False [sample_line True (94 / 10000)]]
       2024 1717200000000 1719791999000)
   - outwardQty (computeItemInventory (\<lambda>x. x) 1735689600000 (sample_item\<lparr>openingQty := 1 / 10000\<rparr>)
       [sample_voucher ''P1'' Purchase 1718150400000 False [sample_line True (94 / 10000)]]
       2024 1717200000000 1719791999000)
   - closingQty (computeItemInventory (\<lambda>x. x) 1735689600000 (sample_item\<lparr>openingQty := 1 / 10000\<rparr>)
       [sample_voucher ''P1'' Purchase 1718150400000 False [sample_line True (94 / 10000)]]
       2024 1717200000000 1719791999000)
   = - 1 / 1000"
  by (simp add: cii_fields isEffective_def sample_voucher_def sample_line_def sample_item_def
        openingVoucher_def openingLine_def moveVoucher_def moveLine_def set_add_def
        getFYBounds_def mkDate_def days_from_civil_def Let_def round3_def Math_round_def)

text \<open>
  The same period in doubles. The quantities 0.0001 and 0.0094 and the intermediate results
  of \<open>computeItemInventory\<close> and of the check, each rounded to a double:
\<close>

lemma dbl_o: "toDouble (1 / 10000) = 7378697629483821 / 73786976294838206464"
  by (rule toDouble_up[where k = 66 and r = 7378697629483821]) (simp_all add: roundHalfEven_def Let_def)

lemma dbl_q: "toDouble (47 / 5000) = 5418731071652181 / 576460752303423488"
  by (rule toDouble_up[where k = 59 and r = 5418731071652181]) (simp_all add: roundHalfEven_def Let_def)

lemma dbl_q_fix: "toDouble (5418731071652181 / 576460752303423488) = 5418731071652181 / 576460752303423488"
  by (rule toDouble_up[where k = 59 and r = 5418731071652181]) (simp_all add: roundHalfEven_def Let_def)

lemma dbl_o_scaled: "toDouble (922337203685477625 / 9223372036854775808) = 3602879701896397 / 36028797018963968"
  by (rule toDouble_up[where k = 56 and r = 7205759403792794]) (simp_all add: roundHalfEven_def Let_def)

lemma dbl_q_scaled: "toDouble (677341383956522625 / 72057594037927936) = 5291729562160333 / 562949953421312"
  by (rule toDouble_up[where k = 49 and r = 5291729562160333]) (simp_all add: roundHalfEven_def Let_def)

lemma dbl_sum: "toDouble (700976274800962989 / 73786976294838206464) = 5476377146882523 / 576460752303423488"
  by (rule toDouble_up[where k = 59 and r = 5476377146882523]) (simp_all add: roundHalfEven_def Let_def)

lemma dbl_sum_fix: "toDouble (5476377146882523 / 576460752303423488) = 5476377146882523 / 576460752303423488"
  by (rule toDouble_up[where k = 59 and r = 5476377146882523]) (simp_all add: roundHalfEven_def Let_def)

lemma dbl_sum_scaled: "toDouble (684547143360315375 / 72057594037927936) = 19 / 2"
  by (rule toDouble_up[where k = 49 and r = 5348024557502464]) (simp_all add: roundHalfEven_def Let_def)

lemma dbl_ri: "toDouble (9 / 1000) = 5188146770730811 / 576460752303423488"
  by (rule toDouble_up[where k = 59 and r = 5188146770730811]) (simp_all add: roundHalfEven_def Let_def)

lemma dbl_ri_fix: "toDouble (5188146770730811 / 576460752303423488) = 5188146770730811 / 576460752303423488"
  by (rule toDouble_up[where k = 59 and r = 5188146770730811]) (simp_all add: roundHalfEven_def Let_def)

lemma dbl_rc: "toDouble (1 / 100) = 5764607523034235 / 576460752303423488"
  by (rule toDouble_up[where k = 59 and r = 5764607523034235]) (simp_all add: roundHalfEven_def Let_def)

lemma dbl_diff: "toDouble (- (9007199254741 / 9007199254740992)) = - (9007199254741 / 9007199254740992)"
  by (rule toDouble_up[where k = 62 and r = "- 4611686018427392"]) (simp_all add: roundHalfEven_def Let_def)

lemma dbl_tol: "toDouble (1 / 1000) = 1152921504606847 / 1152921504606846976"
  by (rule toDouble_up[where k = 62 and r = 4611686018427388]) (simp_all add: roundHalfEven_def Let_def)


text \<open>The period computed for one inward line within the period, in either arithmetic.\<close>

lemma single_inward_period:
  assumes "q \<noteq> 0"
  shows "computeItemInventory rnd 1735689600000 (sample_item\<lparr>openingQty := a\<rparr>)
           [sample_voucher ''P1'' Purchase 1718150400000 False [sample_line True q]]
           2024 1717200000000 1719791999000
         = \<lparr> itemName = ''BELL CROWN MINI'', period_unit = ''PCS'',
             periodStart = 1717200000000, periodEnd = 1719791999000,
             period_openingQty = round3 rnd a,
             inwardQty = round3 rnd (rnd q),
             outwardQty = round3 rnd 0,
             closingQty = round3 rnd (rnd (rnd (a + rnd q))),
             inwardVoucherCount = 1, outwardVoucherCount = 0 \<rparr>"
  using assms
  by (simp add: computeItemInventory_def isEffective_def sample_voucher_def sample_line_def
        sample_item_def openingVoucher_def openingLine_def moveVoucher_def moveLine_def
        set_add_def getFYBounds_def mkDate_def days_from_civil_def Let_def)

text \<open>
  Claim C1 says that the four returned quantities satisfy
  \<open>|openingQty + inwardQty - outwardQty - closingQty| \<le> 0.001\<close>. In doubles, the arithmetic
  of the source, the same input gives the fields 0, 0.009, 0 and 0.01, and
  \<open>0 + 0.009 - 0 - 0.01\<close> evaluates to a number of magnitude above 0.001: the check of
  \<open>validateInventory\<close> flags the period that \<open>computeItemInventory\<close> has returned.
\<close>

theorem computeItemInventory_balance_exceeded:
  "closingMismatch toDouble
     (computeItemInventory toDouble 1735689600000
        (sample_item\<lparr>openingQty := toDouble (1 / 10000)\<rparr>)
        [sample_voucher ''P1'' Purchase 1718150400000 False
           [sample_line True (toDouble (94 / 10000))]]
        2024 1717200000000 1719791999000)"
proof -
  have ro: "round3 toDouble (7378697629483821 / 73786976294838206464) = 0"
    by (simp add: round3_def dbl_o_scaled Math_round_def dbl_zero)
  have ri: "round3 toDouble (toDouble (5418731071652181 / 576460752303423488)) = 5188146770730811 / 576460752303423488"
    by (simp add: round3_def dbl_q_fix dbl_q_scaled Math_round_def dbl_ri)
  have ru: "round3 toDouble 0 = 0"
    by (simp add: round3_def dbl_zero Math_round_def)
  have rc: "round3 toDouble (toDouble (toDouble (7378697629483821 / 73786976294838206464 + toDouble (5418731071652181 / 576460752303423488)))) = 5764607523034235 / 576460752303423488"
    by (simp add: round3_def dbl_q_fix dbl_sum dbl_sum_fix dbl_sum_scaled Math_round_def dbl_rc)
  have q: "toDouble (94 / 10000) = 5418731071652181 / 576460752303423488"
    using dbl_q by simp
  have qne: "(5418731071652181 / 576460752303423488 :: real) \<noteq> 0" by simp
  have p: "computeItemInventory toDouble 1735689600000
        (sample_item\<lparr>openingQty := toDouble (1 / 10000)\<rparr>)
        [sample_voucher ''P1'' Purchase 1718150400000 False
           [sample_line True (toDouble (94 / 10000))]]
        2024 1717200000000 1719791999000
      = \<lparr> itemName = ''BELL CROWN MINI'', period_unit = ''PCS'',
             periodStart = 1717200000000, periodEnd = 1719791999000,
             period_openingQty = 0, inwardQty = 5188146770730811 / 576460752303423488, outwardQty = 0, closingQty = 5764607523034235 / 576460752303423488,
             inwardVoucherCount = 1, outwardVoucherCount = 0 \<rparr>"
    unfolding dbl_o q single_inward_period[OF qne] ro ri ru rc ..
  show ?thesis
    unfolding p by (simp add: closingMismatch_def dbl_ri_fix dbl_diff dbl_tol)
qed

text \<open>The definitions written from the specification against those of the engine.\<close>

lemma isEffective_spec: "isEffective now v = effective_spec now v"
  by (simp add: isEffective_def effective_spec_def)

lemma fy_start_fiscalYearStart: "fy_start (getFYBounds fy) = fiscalYearStart fy"
  by (simp add: getFYBounds_def fiscalYearStart_def)

lemma Math_round_nearestInteger: "Math_round x = nearestInteger x"
proof -
  have "\<lfloor>x + 1 / 2\<rfloor> = (if x - of_int \<lfloor>x\<rfloor> < 1 / 2 then \<lfloor>x\<rfloor> else \<lfloor>x\<rfloor> + 1)"
    by (simp add: floor_eq_iff) linarith
  then show ?thesis by (simp add: Math_round_def nearestInteger_def)
qed

lemma round3_roundedTo: "round3 rnd x = roundedTo 3 rnd x"
  by (simp add: round3_def roundedTo_def Math_round_nearestInteger)

text \<open>
  The opening walk adds the signed quantities of the lines that name the item, one after
  the other in the order of the vouchers and of their lines.
\<close>

lemma openingLine_step:
  "openingLine rnd nm acc l =
     (if stockItemName l = Some (RText nm) then addQuantity rnd acc (signedQty l) else acc)"
  by (auto simp add: openingLine_def signedQty_def addQuantity_def split: option.splits)

lemma openingLine_accumulates:
  "foldl (openingLine rnd nm) acc ls =
     foldl (addQuantity rnd) acc
       (map signedQty (filter (\<lambda>l. stockItemName l = Some (RText nm)) ls))"
  by (induction ls arbitrary: acc) (simp_all add: openingLine_step)

lemma openingVoucher_accumulates:
  "foldl (openingVoucher rnd fs ps nm) acc vs =
     foldl (addQuantity rnd) acc
       (map signedQty
          (concat (map (\<lambda>v. filter (\<lambda>l. stockItemName l = Some (RText nm)) (lines v))
                     (filter (\<lambda>v. fs \<le> date v \<and> date v < ps) vs))))"
  by (induction vs arbitrary: acc)
     (auto simp add: openingVoucher_def openingLine_accumulates)

text \<open>
  Claim C2. The \<open>openingQty\<close> of the returned period is the master opening of the item plus,
  over every effective voucher dated in \<open>[fiscal-year start, periodStart)\<close> and every line of
  it whose \<open>stockItemName\<close> is the item's name, \<open>actualQty\<close> added when \<open>isDeemedPositive\<close>
  and subtracted otherwise (a line without \<open>actualQty\<close> adds nothing), the total rounded to
  3 decimal places. This holds in every arithmetic, that of the source, doubles, included.
\<close>

theorem computeItemInventory_opening:
  "period_openingQty (computeItemInventory rnd now item vs fy ps pe)
     = spec_openingQty rnd now item vs fy ps"
proof -
  have f: "filter (\<lambda>v. fiscalYearStart fy \<le> date v \<and> date v < ps) (filter (isEffective now) vs)
         = filter (\<lambda>v. effective_spec now v \<and> fiscalYearStart fy \<le> date v \<and> date v < ps) vs"
    by (simp add: isEffective_spec)
  show ?thesis
    unfolding cii_fields(1) spec_openingQty_def fy_start_fiscalYearStart round3_roundedTo
      openingVoucher_accumulates f ..
qed

text \<open>
  When no operation rounds, the total of the specification is the sum of the signed
  quantities, whatever their order.
\<close>

lemma addQuantity_reals: "foldl (addQuantity (\<lambda>x. x)) acc qs = acc + sum_list qs"
  by (induction qs arbitrary: acc) (simp_all add: addQuantity_def)

lemma sum_list_map_concat:
  "sum_list (map f (concat xss)) = (\<Sum>xs\<leftarrow>xss. sum_list (map f xs))"
  by (induction xss) simp_all

lemma spec_openingQty_reals:
  "spec_openingQty (\<lambda>x. x) now item vs fy ps =
     of_int (nearestInteger
       ((openingQty item +
          (\<Sum>v\<leftarrow>filter (\<lambda>v. effective_spec now v \<and> fiscalYearStart fy \<le> date v \<and> date v < ps) vs.
             \<Sum>l\<leftarrow>filter (\<lambda>l. stockItemName l = Some (RText (name item))) (lines v). signedQty l))
        * 1000)) / 1000"
  by (simp add: spec_openingQty_def roundedTo_def addQuantity_reals sum_list_map_concat comp_def)

text \<open>
  An opening in doubles: a master opening of 0.0136 and a purchase of 0.4969 before the
  period give 0.51, their total in doubles being the double next below 0.5105.
\<close>

lemma dbl_a: "toDouble (17 / 1250) = 7839866231326559 / 576460752303423488"
  by (rule toDouble_up[where k = 59 and r = 7839866231326559]) (simp_all add: roundHalfEven_def Let_def)

lemma dbl_b: "toDouble (4969 / 10000) = 4475677309680799 / 9007199254740992"
  by (rule toDouble_up[where k = 54 and r = 8951354619361598]) (simp_all add: roundHalfEven_def Let_def)

lemma dbl_ab: "toDouble (294283214050897695 / 576460752303423488) = 1149543804886319 / 2251799813685248"
  by (rule toDouble_up[where k = 53 and r = 4598175219545276]) (simp_all add: roundHalfEven_def Let_def)

lemma dbl_ab_scaled: "toDouble (143692975610789875 / 281474976710656) = 8980810975674367 / 17592186044416"
  by (rule toDouble_up[where k = 44 and r = 8980810975674367]) (simp_all add: roundHalfEven_def Let_def)

lemma dbl_051: "toDouble (51 / 100) = 2296835809958953 / 4503599627370496"
  by (rule toDouble_up[where k = 53 and r = 4593671619917906]) (simp_all add: roundHalfEven_def Let_def)

lemma opening_in_doubles:
  "period_openingQty (computeItemInventory toDouble 1735689600000
        (sample_item\<lparr>openingQty := toDouble (136 / 10000)\<rparr>)
        [sample_voucher ''P1'' Purchase 1715299200000 False
           [sample_line True (toDouble (4969 / 10000))]]
        2024 1717200000000 1719791999000)
     = toDouble (51 / 100)"
proof -
  have a: "toDouble (136 / 10000) = 7839866231326559 / 576460752303423488"
    using dbl_a by simp
  have ne: "(4475677309680799 / 9007199254740992 :: real) \<noteq> 0" by simp
  have "period_openingQty (computeItemInventory toDouble 1735689600000
        (sample_item\<lparr>openingQty := toDouble (136 / 10000)\<rparr>)
        [sample_voucher ''P1'' Purchase 1715299200000 False
           [sample_line True (toDouble (4969 / 10000))]]
        2024 1717200000000 1719791999000)
     = round3 toDouble (toDouble (7839866231326559 / 576460752303423488 + 4475677309680799 / 9007199254740992))"
    unfolding a dbl_b using ne
    by (simp add: cii_fields isEffective_def sample_voucher_def sample_line_def sample_item_def
          openingVoucher_def openingLine_def getFYBounds_def mkDate_def days_from_civil_def Let_def)
  also have "\<dots> = 2296835809958953 / 4503599627370496"
    by (simp add: round3_def dbl_ab dbl_ab_scaled Math_round_def dbl_051)
  finally show ?thesis by (simp add: dbl_051)
qed

lemma flagged_not_effective:
  "isOptional v \<or> isCancelled v \<or> isVoid v \<or> isDeleted v \<Longrightarrow> \<not> isEffective now v"
  by (auto simp add: isEffective_def)

text \<open>
  Claim C3. A voucher with \<open>isOptional\<close>, \<open>isCancelled\<close>, \<open>isVoid\<close> or \<open>isDeleted\<close> set
  contributes nothing: taking it out of the collection, wherever it stands, leaves the
  \<open>openingQty\<close>, \<open>inwardQty\<close> and \<open>outwardQty\<close> of every computed period unchanged, in
  either arithmetic.
\<close>

theorem computeItemInventory_ignores_flagged:
  assumes "isOptional v \<or> isCancelled v \<or> isVoid v \<or> isDeleted v"
  shows "period_openingQty (computeItemInventory rnd now item (xs @ v # ys) fy ps pe)
           = period_openingQty (computeItemInventory rnd now item (xs @ ys) fy ps pe)
       \<and> inwardQty (computeItemInventory rnd now item (xs @ v # ys) fy ps pe)
           = inwardQty (computeItemInventory rnd now item (xs @ ys) fy ps pe)
       \<and> outwardQty (computeItemInventory rnd now item (xs @ v # ys) fy ps pe)
           = outwardQty (computeItemInventory rnd now item (xs @ ys) fy ps pe)"
proof -
  have "filter (isEffective now) (xs @ v # ys) = filter (isEffective now) (xs @ ys)"
    using flagged_not_effective[OF assms, of now] by simp
  then show ?thesis
    by (simp add: cii_fields)
qed

theorem computeItemInventory_ignores_flagged_witness:
  "(isOptional (sample_voucher ''SO1'' Sales_Order 1718150400000 True [sample_line False 3])
    \<or> isCancelled (sample_voucher ''SO1'' Sales_Order 1718150400000 True [sample_line False 3])
    \<or> isVoid (sample_voucher ''SO1'' Sales_Order 1718150400000 True [sample_line False 3])
    \<or> isDeleted (sample_voucher ''SO1'' Sales_Order 1718150400000 True [sample_line False 3]))
   \<and> outwardQty (computeItemInventory toDouble 1735689600000 sample_item
         ([sample_voucher ''P1'' Purchase 1715299200000 False [sample_line True 5]]
          @ sample_voucher ''SO1'' Sales_Order 1718150400000 True [sample_line False 3]
          # [sample_voucher ''S1'' Sales 1718150400000 False [sample_line False 2]])
         2024 1717200000000 1719791999000)
     = outwardQty (computeItemInventory toDouble 1735689600000 sample_item
         ([sample_voucher ''P1'' Purchase 1715299200000 False [sample_line True 5]]
          @ [sample_voucher ''S1'' Sales 1718150400000 False [sample_line False 2]])
         2024 1717200000000 1719791999000)"
  using computeItemInventory_ignores_flagged
     [where v = "sample_voucher ''SO1'' Sales_Order 1718150400000 True [sample_line False 3]"
        and rnd = toDouble and now = 1735689600000 and item = sample_item
        and xs = "[sample_voucher ''P1'' Purchase 1715299200000 False [sample_line True 5]]"
        and ys = "[sample_voucher ''S1'' Sales 1718150400000 False [sample_line False 2]]"
        and fy = 2024 and ps = 1717200000000 and pe = 1719791999000]
  by (simp add: sample_voucher_def)

section \<open>Properties of the merge\<close>

lemma map_set_fresh: "\<not> map_has m k \<Longrightarrow> map_set m k v = m @ [(k, v)]"
  by (induction m) (auto simp add: map_has_def)

lemma firstSeen_cong_set: "set s = set s' \<Longrightarrow> firstSeen s xs = firstSeen s' xs"
proof (induction xs arbitrary: s s')
  case Nil
  then show ?case by simp
next
  case (Cons v vs)
  have "firstSeen (vid v # s) vs = firstSeen (vid v # s') vs"
    by (rule Cons.IH) (simp add: Cons.prems)
  moreover have "firstSeen s vs = firstSeen s' vs"
    by (rule Cons.IH) (rule Cons.prems)
  ultimately show ?case using Cons.prems by simp
qed

lemma foldl_addVoucher:
  "foldl addVoucher m vs = m @ map (\<lambda>v. (vid v, v)) (firstSeen (map fst m) vs)"
proof (induction vs arbitrary: m)
  case Nil
  then show ?case by simp
next
  case (Cons v vs)
  show ?case
  proof (cases "map_has m (vid v)")
    case True
    then have "addVoucher m v = m" by (simp add: addVoucher_def)
    with True Cons.IH[of m] show ?thesis by (simp add: map_has_def)
  next
    case False
    then have a: "addVoucher m v = m @ [(vid v, v)]"
      by (simp add: addVoucher_def map_set_fresh)
    have "firstSeen (vid v # map fst m) vs = firstSeen (map fst (m @ [(vid v, v)])) vs"
      by (rule firstSeen_cong_set) auto
    with False a Cons.IH[of "m @ [(vid v, v)]"] show ?thesis
      by (simp add: map_has_def)
  qed
qed

lemma merged_vouchers:
  "getAllVouchers (mergeData lt now st nd) = firstSeen [] (getAllVouchers st @ vouchers nd)"
proof -
  have "getAllVouchers (mergeData lt now st nd)
          = map_values (foldl addVoucher [] (getAllVouchers st @ vouchers nd))"
    by (cases "st_data st") (simp_all add: getAllVouchers_def mergeData_def Let_def emptyData_def)
  then show ?thesis
    unfolding foldl_addVoucher by (simp add: map_values_def comp_def)
qed

lemma firstSeen_ids: "vid ` set (firstSeen seen vs) \<inter> set seen = {}"
  by (induction seen vs rule: firstSeen.induct) auto

lemma firstSeen_ids_sub: "v \<in> set (firstSeen seen vs) \<Longrightarrow> v \<in> set vs"
  by (induction seen vs rule: firstSeen.induct) (auto split: if_splits)

lemma firstSeen_distinct: "distinct (map vid (firstSeen seen vs))"
proof (induction seen vs rule: firstSeen.induct)
  case (1 seen)
  then show ?case by simp
next
  case (2 seen v vs)
  have "vid v \<notin> vid ` set (firstSeen (vid v # seen) vs)"
    using firstSeen_ids[of "vid v # seen" vs] by auto
  with 2 show ?case by auto
qed

lemma firstSeen_filter:
  "filter (\<lambda>w. vid w = i) (firstSeen seen vs) =
     (if i \<in> set seen then []
      else case find (\<lambda>w. vid w = i) vs of None \<Rightarrow> [] | Some v \<Rightarrow> [v])"
proof (induction seen vs rule: firstSeen.induct)
  case (1 seen)
  then show ?case by simp
next
  case (2 seen v vs)
  show ?case
  proof (cases "vid v \<in> set seen")
    case True
    with 2 show ?thesis by auto
  next
    case False
    with 2 show ?thesis by auto
  qed
qed

lemma firstSeen_all_seen:
  "vid ` set vs \<subseteq> set seen \<Longrightarrow> firstSeen seen vs = []"
  by (induction seen vs rule: firstSeen.induct) auto

lemma firstSeen_append_distinct:
  "distinct (map vid cur) \<Longrightarrow> set (map vid cur) \<inter> set seen = {} \<Longrightarrow>
   firstSeen seen (cur @ new) = cur @ firstSeen (rev (map vid cur) @ seen) new"
proof (induction cur arbitrary: seen)
  case Nil
  then show ?case by simp
next
  case (Cons v cur)
  then have "firstSeen (vid v # seen) (cur @ new) = cur @ firstSeen (rev (map vid cur) @ vid v # seen) new"
    by (intro Cons.IH) auto
  with Cons.prems show ?case by auto
qed

text \<open>
  The id of a normalised voucher is made of its type, its number and its date, so two
  normalised vouchers that agree on the three have the same id.
\<close>

lemma normalizeVoucher_id:
  assumes "normalizeVoucher rnd pf r = Inr (Some v)"
  shows "vid v = voucherTypeName (voucherType v) @ ''|'' @ jsString (voucherNumber v) @ ''|''
                   @ toISOString (date v)"
  using assms unfolding normalizeVoucher_def Let_def
  by (auto dest!: thenDo_Inr split: if_splits option.splits)

lemma normalizeVoucher_same_identity:
  assumes "normalizeVoucher rnd pf r = Inr (Some v)" "normalizeVoucher rnd pf r' = Inr (Some v')"
    and "voucherType v = voucherType v'" "voucherNumber v = voucherNumber v'" "date v = date v'"
  shows "vid v = vid v'"
  using assms by (simp add: normalizeVoucher_id)

text \<open>Every state of the store holds vouchers of pairwise distinct ids.\<close>

lemma getAllVouchers_initial: "getAllVouchers initialState = []"
  by (simp add: getAllVouchers_def initialState_def)

lemma getAllVouchers_clearData: "getAllVouchers (clearData st) = []"
  by (simp add: getAllVouchers_def clearData_def)

lemma callStore_distinct:
  "distinct (map vid (getAllVouchers st)) \<Longrightarrow> distinct (map vid (getAllVouchers (callStore lt st c)))"
  by (cases c) (simp_all add: merged_vouchers firstSeen_distinct getAllVouchers_clearData)

lemma foldl_callStore_distinct:
  "distinct (map vid (getAllVouchers st))
   \<Longrightarrow> distinct (map vid (getAllVouchers (foldl (callStore lt) st calls)))"
  by (induction calls arbitrary: st) (simp_all add: callStore_distinct)

lemma runStore_distinct: "distinct (map vid (getAllVouchers (runStore lt calls)))"
  unfolding runStore_def by (rule foldl_callStore_distinct) (simp add: getAllVouchers_initial)

lemma merge_present_unchanged:
  assumes "distinct (map vid (getAllVouchers st))"
    and "vid ` set (vouchers nd) \<subseteq> vid ` set (getAllVouchers st)"
  shows "getAllVouchers (mergeData lt now st nd) = getAllVouchers st"
proof -
  have "firstSeen [] (getAllVouchers st @ vouchers nd)
        = getAllVouchers st @ firstSeen (rev (map vid (getAllVouchers st)) @ []) (vouchers nd)"
    using assms(1) by (intro firstSeen_append_distinct) auto
  moreover have "firstSeen (rev (map vid (getAllVouchers st)) @ []) (vouchers nd) = []"
    using assms(2) by (intro firstSeen_all_seen) auto
  ultimately show ?thesis
    unfolding merged_vouchers by simp
qed

text \<open>
  Claim C4. \<open>mergeData\<close> keeps, for every id, exactly the first voucher with that id in the
  order existing dataset, then new batch, so that of two vouchers with the same id only the
  one of the dataset, or the earlier one, is kept, and the merged collection has pairwise
  distinct ids. Consequently, in every state that the store reaches, merging a batch all of
  whose ids are already in the dataset leaves the collection of vouchers unchanged; the
  same holds of any dataset whose ids are pairwise distinct.
\<close>

theorem mergeData_first_seen:
  "filter (\<lambda>w. vid w = i) (getAllVouchers (mergeData lt now st nd))
     = (case find (\<lambda>w. vid w = i) (getAllVouchers st @ vouchers nd) of
          None \<Rightarrow> [] | Some v \<Rightarrow> [v])
   \<and> distinct (map vid (getAllVouchers (mergeData lt now st nd)))
   \<and> (vid ` set (vouchers nd) \<subseteq> vid ` set (getAllVouchers (runStore lt calls))
      \<longrightarrow> getAllVouchers (mergeData lt now (runStore lt calls) nd)
            = getAllVouchers (runStore lt calls))
   \<and> (distinct (map vid (getAllVouchers st))
        \<and> vid ` set (vouchers nd) \<subseteq> vid ` set (getAllVouchers st)
      \<longrightarrow> getAllVouchers (mergeData lt now st nd) = getAllVouchers st)"
proof (intro conjI impI)
  show "filter (\<lambda>w. vid w = i) (getAllVouchers (mergeData lt now st nd))
     = (case find (\<lambda>w. vid w = i) (getAllVouchers st @ vouchers nd) of
          None \<Rightarrow> [] | Some v \<Rightarrow> [v])"
    unfolding merged_vouchers by (simp add: firstSeen_filter)
  show "distinct (map vid (getAllVouchers (mergeData lt now st nd)))"
    unfolding merged_vouchers by (rule firstSeen_distinct)
next
  assume "vid ` set (vouchers nd) \<subseteq> vid ` set (getAllVouchers (runStore lt calls))"
  then show "getAllVouchers (mergeData lt now (runStore lt calls) nd)
               = getAllVouchers (runStore lt calls)"
    by (rule merge_present_unchanged[OF runStore_distinct])
next
  assume "distinct (map vid (getAllVouchers st))
        \<and> vid ` set (vouchers nd) \<subseteq> vid ` set (getAllVouchers st)"
  then show "getAllVouchers (mergeData lt now st nd) = getAllVouchers st"
    by (simp add: merge_present_unchanged)
qed

text \<open>
  A store that has imported two vouchers is given a batch with a voucher of the first id,
  marked optional: the two vouchers stay as they were.
\<close>

lemma sample_store:
  "getAllVouchers (runStore 0 [MergeData 1 (sample_batch
       [sample_voucher ''Sales|1|d'' Sales 1718150400000 False [sample_line False 2],
        sample_voucher ''Sales|2|d'' Sales 1718150400000 False []])])
     = [sample_voucher ''Sales|1|d'' Sales 1718150400000 False [sample_line False 2],
        sample_voucher ''Sales|2|d'' Sales 1718150400000 False []]"
  by (simp add: runStore_def merged_vouchers getAllVouchers_initial sample_batch_def
        sample_voucher_def)

theorem mergeData_first_seen_witness:
  "vid ` set (vouchers (sample_batch
       [sample_voucher ''Sales|1|d'' Sales 1718150400000 True []]))
       \<subseteq> vid ` set (getAllVouchers (runStore 0 [MergeData 1 (sample_batch
       [sample_voucher ''Sales|1|d'' Sales 1718150400000 False [sample_line False 2],
        sample_voucher ''Sales|2|d'' Sales 1718150400000 False []])]))
   \<and> getAllVouchers (mergeData 0 2 (runStore 0 [MergeData 1 (sample_batch
       [sample_voucher ''Sales|1|d'' Sales 1718150400000 False [sample_line False 2],
        sample_voucher ''Sales|2|d'' Sales 1718150400000 False []])])
      (sample_batch [sample_voucher ''Sales|1|d'' Sales 1718150400000 True []]))
     = [sample_voucher ''Sales|1|d'' Sales 1718150400000 False [sample_line False 2],
        sample_voucher ''Sales|2|d'' Sales 1718150400000 False []]"
  using mergeData_first_seen [where i = "''Sales|1|d''" and lt = 0 and now = 2
     and st = initialState
     and calls = "[MergeData 1 (sample_batch
       [sample_voucher ''Sales|1|d'' Sales 1718150400000 False [sample_line False 2],
        sample_voucher ''Sales|2|d'' Sales 1718150400000 False []])]"
     and nd = "sample_batch [sample_voucher ''Sales|1|d'' Sales 1718150400000 True []]"]
  unfolding sample_store
  by (simp add: sample_batch_def sample_voucher_def)
section \<open>Properties of the unit conversion\<close>

lemma round2_roundedTo: "round2 rnd x = roundedTo 2 rnd x"
  by (simp add: round2_def roundedTo_def Math_round_nearestInteger)

text \<open>
  Claim C5, as the code has it. \<open>toBase\<close> undoes the conversion of \<open>formatQty\<close> and not its
  rounding: for a configuration with a positive \<open>unitsPerPkg\<close>, \<open>toBase\<close> of the value of
  \<open>formatQty\<close> is, in package display, the number of packages rounded to 2 decimal places
  and multiplied by \<open>unitsPerPkg\<close>, and in base display the base quantity rounded to 2 decimal
  places. This holds in every arithmetic, that of the source, doubles, included.
\<close>

theorem toBase_formatQty:
  assumes "unitsPerPkg c > 0"
  shows "toBase rnd (fq_value (formatQty rnd q (Some c) mode)) (Some c) mode
           = (case mode of
                PKG \<Rightarrow> rnd (roundedTo 2 rnd (rnd (q / unitsPerPkg c)) * unitsPerPkg c)
              | BASE \<Rightarrow> roundedTo 2 rnd q)"
  using assms
  by (cases mode) (simp_all add: toBase_def formatQty_def pkgDisplay_def Let_def round2_roundedTo)

text \<open>In doubles, 300 base units at 12 to the package are 25 packages, and 25 packages are 300.\<close>

lemma dbl_25: "toDouble (25) = 25"
  by (rule toDouble_up[where k = 48 and r = 7036874417766400]) (simp_all add: roundHalfEven_def Let_def)

lemma dbl_2500: "toDouble (2500) = 2500"
  by (rule toDouble_up[where k = 41 and r = 5497558138880000]) (simp_all add: roundHalfEven_def Let_def)

lemma dbl_300: "toDouble (300) = 300"
  by (rule toDouble_up[where k = 44 and r = 5277655813324800]) (simp_all add: roundHalfEven_def Let_def)

theorem toBase_formatQty_witness:
  "unitsPerPkg sample_config > 0
   \<and> toBase toDouble (fq_value (formatQty toDouble 300 (Some sample_config) PKG))
         (Some sample_config) PKG = 300"
  using toBase_formatQty[of sample_config toDouble 300 PKG]
  by (simp add: sample_config_def roundedTo_def nearestInteger_def dbl_25 dbl_2500 dbl_300)

text \<open>
  Were the arithmetic that of the reals (\<open>rnd\<close> the identity), \<open>toBase\<close> would bring the value
  of \<open>formatQty\<close> back to the base quantity exactly when the quantity shown is a multiple of
  0.01, and within 0.005 of a unit of the display otherwise.
\<close>

lemma abs_div_100: "\<bar>r\<bar> \<le> 1 / 2 \<Longrightarrow> \<bar>r / 100\<bar> \<le> 1 / 200" for r :: real
  by simp

lemma round2_error: "\<bar>round2 (\<lambda>x. x) x - x\<bar> \<le> 1 / 200"
proof -
  let ?k = "of_int (Math_round (x * 100)) :: real"
  have "x * 100 - 1 / 2 < ?k" "?k \<le> x * 100 + 1 / 2"
    unfolding Math_round_def by linarith+
  then have k: "\<bar>?k - x * 100\<bar> \<le> 1 / 2" by linarith
  have eq: "round2 (\<lambda>x. x) x - x = (?k - x * 100) / 100"
    unfolding round2_def by (simp add: field_simps)
  show ?thesis unfolding eq by (rule abs_div_100[OF k])
qed

lemma round2_fixed: "round2 (\<lambda>x. x) x = x \<longleftrightarrow> x * 100 \<in> \<int>"
proof
  assume "round2 (\<lambda>x. x) x = x"
  then have "x * 100 = of_int (Math_round (x * 100))"
    unfolding round2_def by (simp add: field_simps)
  then show "x * 100 \<in> \<int>" by (metis Ints_of_int)
next
  assume "x * 100 \<in> \<int>"
  then obtain k :: int where k: "x * 100 = of_int k" by (auto elim: Ints_cases)
  have "Math_round (of_int k) = k" unfolding Math_round_def by linarith
  then show "round2 (\<lambda>x. x) x = x" unfolding round2_def k using k by (simp add: field_simps)
qed

lemma fq_value_formatQty:
  "fq_value (formatQty (\<lambda>x. x) q config mode) = round2 (\<lambda>x. x) (displayedQty q config mode)"
  by (simp add: formatQty_def displayedQty_def Let_def)

lemma round_trip_reals:
  assumes "unitsPerPkg c > 0"
  shows "(toBase (\<lambda>x. x) (fq_value (formatQty (\<lambda>x. x) q (Some c) mode)) (Some c) mode = q
            \<longleftrightarrow> displayedQty q (Some c) mode * 100 \<in> \<int>)
       \<and> \<bar>toBase (\<lambda>x. x) (fq_value (formatQty (\<lambda>x. x) q (Some c) mode)) (Some c) mode - q\<bar>
            \<le> (if mode = PKG then unitsPerPkg c else 1) / 200"
proof (cases "mode = PKG")
  case True
  let ?u = "unitsPerPkg c"
  let ?d = "q / ?u"
  have pk: "pkgDisplay (Some c) mode" using True assms by (simp add: pkgDisplay_def)
  have d: "displayedQty q (Some c) mode = ?d" using pk by (simp add: displayedQty_def)
  have tb: "toBase (\<lambda>x. x) (fq_value (formatQty (\<lambda>x. x) q (Some c) mode)) (Some c) mode
              = round2 (\<lambda>x. x) ?d * ?u"
    using pk by (simp add: toBase_def fq_value_formatQty d)
  have "round2 (\<lambda>x. x) ?d * ?u = q \<longleftrightarrow> round2 (\<lambda>x. x) ?d = ?d"
    using assms by (simp add: field_simps)
  then have one: "round2 (\<lambda>x. x) ?d * ?u = q \<longleftrightarrow> ?d * 100 \<in> \<int>"
    using round2_fixed[of ?d] by simp
  have "round2 (\<lambda>x. x) ?d * ?u - q = (round2 (\<lambda>x. x) ?d - ?d) * ?u"
    using assms by (simp add: field_simps)
  then have "\<bar>round2 (\<lambda>x. x) ?d * ?u - q\<bar> = \<bar>round2 (\<lambda>x. x) ?d - ?d\<bar> * ?u"
    using assms by (simp add: abs_mult)
  also have "\<dots> \<le> (1 / 200) * ?u"
    using round2_error[of ?d] assms by (intro mult_right_mono) auto
  finally have two: "\<bar>round2 (\<lambda>x. x) ?d * ?u - q\<bar> \<le> ?u / 200" by simp
  show ?thesis unfolding tb d using one two True by simp
next
  case False
  have pk: "\<not> pkgDisplay (Some c) mode" using False by (simp add: pkgDisplay_def)
  have d: "displayedQty q (Some c) mode = q" using pk by (simp add: displayedQty_def)
  have tb: "toBase (\<lambda>x. x) (fq_value (formatQty (\<lambda>x. x) q (Some c) mode)) (Some c) mode
              = round2 (\<lambda>x. x) q"
    using pk by (simp add: toBase_def fq_value_formatQty d)
  show ?thesis unfolding tb d using round2_fixed[of q] round2_error[of q] False by simp
qed

text \<open>
  The quantities of the example below, each rounded to a double: 7 / 12, that times 100,
  0.58, and 0.58 times 12.
\<close>

lemma dbl_pkg: "toDouble (7 / 12) = 5254199565265579 / 9007199254740992"
  by (rule toDouble_up[where k = 53 and r = 5254199565265579]) (simp_all add: roundHalfEven_def Let_def)

lemma dbl_pkg_scaled: "toDouble (131354989131639475 / 2251799813685248) = 8209686820727467 / 140737488355328"
  by (rule toDouble_up[where k = 47 and r = 8209686820727467]) (simp_all add: roundHalfEven_def Let_def)

lemma dbl_pkg_value: "toDouble (29 / 50) = 5224175567749775 / 9007199254740992"
  by (rule toDouble_up[where k = 53 and r = 5224175567749775]) (simp_all add: roundHalfEven_def Let_def)

lemma dbl_pkg_base: "toDouble (15672526703249325 / 2251799813685248) = 3918131675812331 / 562949953421312"
  by (rule toDouble_up[where k = 50 and r = 7836263351624662]) (simp_all add: roundHalfEven_def Let_def)

text \<open>
  Claim C5 as it is worded fails, here in doubles: 7 base units at 12 to the package are
  shown as 0.58 packages, and 0.58 packages are 6.96 base units.
\<close>

theorem toBase_formatQty_counterexample:
  "unitsPerPkg sample_config > 0
   \<and> toBase toDouble (fq_value (formatQty toDouble 7 (Some sample_config) PKG))
         (Some sample_config) PKG \<noteq> 7"
proof -
  have v: "fq_value (formatQty toDouble 7 (Some sample_config) PKG) = 5224175567749775 / 9007199254740992"
    by (simp add: formatQty_def pkgDisplay_def sample_config_def Let_def round2_def
          dbl_pkg dbl_pkg_scaled Math_round_def dbl_pkg_value)
  show ?thesis
    unfolding v by (simp add: toBase_def pkgDisplay_def sample_config_def dbl_pkg_base)
qed

section \<open>Properties of the string functions\<close>

lemma startsWith_iff: "startsWith s p \<longleftrightarrow> (\<exists>b. s = p @ b)"
  by (induction s p rule: startsWith.induct) auto

lemma str_includes_iff: "str_includes s p \<longleftrightarrow> (\<exists>a b. s = a @ p @ b)"
proof (induction s)
  case Nil
  then show ?case by simp
next
  case (Cons c cs)
  show ?case
  proof
    assume "str_includes (c # cs) p"
    then consider "startsWith (c # cs) p" | "str_includes cs p" by auto
    then show "\<exists>a b. c # cs = a @ p @ b"
    proof cases
      case 1
      then obtain b where "c # cs = p @ b" by (auto simp add: startsWith_iff)
      then have "c # cs = [] @ p @ b" by simp
      then show ?thesis by blast
    next
      case 2
      then obtain a b where "cs = a @ p @ b" using Cons.IH by auto
      then have "c # cs = (c # a) @ p @ b" by simp
      then show ?thesis by blast
    qed
  next
    assume "\<exists>a b. c # cs = a @ p @ b"
    then obtain a b where ab: "c # cs = a @ p @ b" by auto
    show "str_includes (c # cs) p"
    proof (cases a)
      case Nil
      with ab have "startsWith (c # cs) p" by (auto simp add: startsWith_iff)
      then show ?thesis by simp
    next
      case (Cons x a')
      with ab have "cs = a' @ p @ b" by simp
      then have "str_includes cs p" using Cons.IH by auto
      then show ?thesis by simp
    qed
  qed
qed

lemma str_includes_prefix: "str_includes s (p @ q) \<Longrightarrow> str_includes s p"
  unfolding str_includes_iff by (metis append.assoc)

lemma str_includes_suffix: "str_includes s (p @ q) \<Longrightarrow> str_includes s q"
  unfolding str_includes_iff by (metis append.assoc)

lemma dropWhile_keeps:
  "\<not> P c \<Longrightarrow> \<exists>a'. dropWhile P (a @ c # r) = a' @ c # r"
  by (induction a) auto

lemma trimStart_keeps:
  assumes "s = a @ p @ b" "p \<noteq> []" "\<not> isWhiteSpace (hd p)"
  shows "\<exists>a'. trimStart s = a' @ p @ b"
proof -
  obtain c p' where p: "p = c # p'" using assms(2) by (cases p) auto
  with assms(3) have "\<not> isWhiteSpace c" by simp
  then obtain a' where "dropWhile isWhiteSpace (a @ c # (p' @ b)) = a' @ c # (p' @ b)"
    using dropWhile_keeps[of isWhiteSpace c a "p' @ b"] by blast
  then show ?thesis unfolding trimStart_def assms(1) p by auto
qed

lemma trimEnd_keeps:
  assumes "s = a @ p @ b" "p \<noteq> []" "\<not> isWhiteSpace (last p)"
  shows "\<exists>b'. trimEnd s = a @ p @ b'"
proof -
  obtain c p' where p: "p = p' @ [c]" using assms(2) by (cases p rule: rev_cases) auto
  with assms(3) have c: "\<not> isWhiteSpace c" by simp
  have "rev s = rev b @ c # (rev p' @ rev a)" unfolding assms(1) p by simp
  moreover obtain x where "dropWhile isWhiteSpace (rev b @ c # (rev p' @ rev a)) = x @ c # (rev p' @ rev a)"
    using dropWhile_keeps[of isWhiteSpace c "rev b" "rev p' @ rev a"] c by blast
  ultimately have "trimEnd s = a @ p' @ [c] @ rev x"
    unfolding trimEnd_def by simp
  then show ?thesis unfolding p by auto
qed

lemma trim_keeps:
  assumes "str_includes s p" "p \<noteq> []" "\<not> isWhiteSpace (hd p)" "\<not> isWhiteSpace (last p)"
  shows "str_includes (trim s) p"
proof -
  obtain a b where "s = a @ p @ b" using assms(1) by (auto simp add: str_includes_iff)
  then obtain a' where "trimStart s = a' @ p @ b"
    using trimStart_keeps assms(2,3) by blast
  then obtain b' where "trimEnd (trimStart s) = a' @ p @ b'"
    using trimEnd_keeps assms(2,4) by blast
  then show ?thesis unfolding trim_def str_includes_iff by blast
qed

lemma rev_split: "t = rev (dropWhile P (rev t)) @ rev (takeWhile P (rev t))"
proof -
  have "rev (rev t) = rev (takeWhile P (rev t) @ dropWhile P (rev t))"
    by (simp only: takeWhile_dropWhile_id)
  then show ?thesis by (simp only: rev_rev_ident rev_append)
qed

lemma trim_part: "\<exists>w1 w2. s = w1 @ trim s @ w2"
proof -
  have 1: "s = takeWhile isWhiteSpace s @ trimStart s"
    unfolding trimStart_def by simp
  have 2: "trimStart s = trim s @ rev (takeWhile isWhiteSpace (rev (trimStart s)))"
    unfolding trim_def trimEnd_def by (rule rev_split)
  have "s = takeWhile isWhiteSpace s @ trim s @ rev (takeWhile isWhiteSpace (rev (trimStart s)))"
    using 1 2 by simp
  then show ?thesis by blast
qed

lemma trim_includes: "str_includes (trim s) p \<Longrightarrow> str_includes s p"
proof -
  assume "str_includes (trim s) p"
  then obtain a b where ab: "trim s = a @ p @ b" by (auto simp add: str_includes_iff)
  obtain w1 w2 where "s = w1 @ trim s @ w2" using trim_part by blast
  then have "s = (w1 @ a) @ p @ (b @ w2)" unfolding ab by simp
  then show ?thesis unfolding str_includes_iff by blast
qed

lemma isWhiteSpace_toLowerChar: "isWhiteSpace (toLowerChar c) = isWhiteSpace c"
proof (cases "c \<in> set upperLetters")
  case True
  then show ?thesis
    by (auto simp add: upperLetters_def toLowerChar_def lowerLetters_def isWhiteSpace_def)
next
  case False
  then have "map_of (zip upperLetters lowerLetters) c = None"
    by (simp add: map_of_zip_is_None upperLetters_def lowerLetters_def)
  then show ?thesis by (simp add: toLowerChar_def)
qed

lemma toLowerCase_trim: "toLowerCase (trim s) = trim (toLowerCase s)"
  by (simp add: trim_def trimStart_def trimEnd_def toLowerCase_def dropWhile_map rev_map
        comp_def isWhiteSpace_toLowerChar)

lemma includes_lower_trim:
  assumes "p \<noteq> []" "\<not> isWhiteSpace (hd p)" "\<not> isWhiteSpace (last p)"
  shows "str_includes (toLowerCase (trim s)) p \<longleftrightarrow> str_includes (toLowerCase s) p"
  unfolding toLowerCase_trim using trim_keeps[OF _ assms] trim_includes by blast

lemma includes_nonempty: "str_includes (toLowerCase s) p \<Longrightarrow> p \<noteq> [] \<Longrightarrow> s \<noteq> []"
  by (auto simp add: toLowerCase_def)

lemma startsWith_single: "startsWith s [c] \<longleftrightarrow> (s \<noteq> [] \<and> hd s = c)"
  by (cases s) auto

lemma digit_not_ws: "isDigit c \<Longrightarrow> \<not> isWhiteSpace c"
  by (auto simp add: isDigit_def isWhiteSpace_def)

lemma digit_not_sign: "isDigit c \<Longrightarrow> c \<noteq> CHR ''-'' \<and> c \<noteq> CHR ''+''"
  by (auto simp add: isDigit_def)

lemma dropWhile_id: "xs = [] \<or> \<not> P (hd xs) \<Longrightarrow> dropWhile P xs = xs"
  by (cases xs) auto

lemma takeWhile_all: "list_all P xs \<Longrightarrow> takeWhile P xs = xs"
  by (induction xs) auto

lemma parseInt_digits:
  assumes "ds \<noteq> []" "list_all isDigit ds"
  shows "parseInt ds = Some (int (digitsVal ds))"
proof -
  obtain c r where ds: "ds = c # r" using assms(1) by (cases ds) auto
  with assms(2) have c: "isDigit c" by simp
  have a: "dropWhile isWhiteSpace ds = ds"
    using digit_not_ws[OF c] ds by simp
  have b: "hd ds \<noteq> CHR ''-''" "hd ds \<noteq> CHR ''+''"
    using digit_not_sign[OF c] ds by simp_all
  have t: "takeWhile isDigit ds = ds" by (rule takeWhile_all[OF assms(2)])
  show ?thesis by (simp add: parseInt_def Let_def a b t assms(1))
qed

lemma trim_digits:
  assumes "list_all isDigit s"
  shows "trim s = s"
proof -
  have 1: "trimStart s = s"
    unfolding trimStart_def using assms digit_not_ws by (cases s) auto
  have "rev s = [] \<or> \<not> isWhiteSpace (hd (rev s))"
    using assms digit_not_ws by (cases s rule: rev_cases) auto
  then have "dropWhile isWhiteSpace (rev s) = rev s" by (rule dropWhile_id)
  then have "trimEnd s = s" by (simp add: trimEnd_def)
  with 1 show ?thesis by (simp add: trim_def)
qed

lemma substring_digits:
  "list_all isDigit s \<Longrightarrow> list_all isDigit (substring s a b)"
  by (auto simp add: substring_def list_all_iff dest: in_set_takeD in_set_dropD)

section \<open>Properties of the date extraction\<close>

text \<open>Eight digits with a month in 1..12 and a day in 1..31 give a date.\<close>

lemma parseTallyDate_well_formed:
  assumes len: "length s = 8" and dig: "list_all isDigit s"
    and m: "1 \<le> digitsVal (substring s 4 6)" "digitsVal (substring s 4 6) \<le> 12"
    and d: "1 \<le> digitsVal (substring s 6 8)" "digitsVal (substring s 6 8) \<le> 31"
  shows "parseTallyDate (Some s)
           = Some (mkDate (int (digitsVal (substring s 0 4)))
                          (int (digitsVal (substring s 4 6)) - 1)
                          (int (digitsVal (substring s 6 8))) 0 0 0)"
proof -
  have ne: "substring s 0 4 \<noteq> []" "substring s 4 6 \<noteq> []" "substring s 6 8 \<noteq> []"
    using len by (auto simp add: substring_def)
  have p: "parseInt (substring s 0 4) = Some (int (digitsVal (substring s 0 4)))"
          "parseInt (substring s 4 6) = Some (int (digitsVal (substring s 4 6)))"
          "parseInt (substring s 6 8) = Some (int (digitsVal (substring s 6 8)))"
    using ne substring_digits[OF dig] by (simp_all add: parseInt_digits)
  have t: "truthy (Some s)" using len by (auto simp add: truthy_def)
  show ?thesis
    unfolding parseTallyDate_def Let_def
    using t len m d by (simp add: trim_digits[OF dig] p)
qed

text \<open>A trimmed input that is not 8 characters long gives no date.\<close>

lemma parseTallyDate_other_length:
  "length (trim s) \<noteq> 8 \<Longrightarrow> parseTallyDate (Some s) = None"
  by (simp add: parseTallyDate_def Let_def)

text \<open>
  Claim C6 says that an input which, trimmed, is not 8 digits gives the absent value.
  \<open>parseTallyDate\<close> checks the length and then reads each part with \<open>parseInt\<close>, which
  stops at the first character that is not a digit: \<open>2024011x\<close> has 8 characters, its day
  part \<open>1x\<close> is read as 1, and a date is returned, 1 January 2024.
\<close>

theorem parseTallyDate_accepts_nondigit:
  "parseTallyDate (Some ''2024011x'') = Some (mkDate 2024 0 1 0 0 0)"
  by code_simp

section \<open>Properties of the sanitiser\<close>

lemma cleanRefs_suffix: "cleanRefs (a @ b) \<Longrightarrow> cleanRefs b"
  by (induction a) auto

lemma decRef_shape:
  assumes "decRef s = Some (ds, rest)"
  shows "s = ''&#'' @ ds @ '';'' @ rest" and "ds = takeWhile isDigit (drop 2 s)" and "ds \<noteq> []"
    and "dropWhile isDigit (drop 2 s) = CHR '';'' # rest"
proof -
  let ?t = "drop 2 s"
  from assms have sw: "startsWith s ''&#''"
    by (auto simp add: decRef_def Let_def split: if_splits)
  then obtain b where s: "s = ''&#'' @ b" using startsWith_iff by blast
  from assms sw have d: "ds = takeWhile isDigit ?t" and ne: "ds \<noteq> []"
    and r: "dropWhile isDigit ?t \<noteq> []" "hd (dropWhile isDigit ?t) = CHR '';''"
    and rest: "rest = tl (dropWhile isDigit ?t)"
    by (auto simp add: decRef_def Let_def split: if_splits)
  from r rest have dw: "dropWhile isDigit ?t = CHR '';'' # rest"
    by (cases "dropWhile isDigit ?t") auto
  have "?t = takeWhile isDigit ?t @ dropWhile isDigit ?t" by simp
  then have "?t = ds @ CHR '';'' # rest" using d dw by simp
  moreover have "?t = b" using s by simp
  ultimately show "s = ''&#'' @ ds @ '';'' @ rest" using s by simp
  show "ds = takeWhile isDigit (drop 2 s)" by (rule d)
  show "ds \<noteq> []" by (rule ne)
  show "dropWhile isDigit (drop 2 s) = CHR '';'' # rest" by (rule dw)
qed

lemma namedRef_entityAhead: "namedRefAhead s \<Longrightarrow> entityAhead s"
  by (simp add: namedRefAhead_def entityAhead_def Let_def startsWith_single)

lemma decimalRef_entityAhead: "decimalRefAhead s = Some n \<Longrightarrow> entityAhead s"
  by (simp add: decimalRefAhead_def entityAhead_def Let_def startsWith_single split: if_splits)

lemma fixUnescapedAmpersands_clean: "cleanRefs s \<Longrightarrow> fixUnescapedAmpersands s = s"
proof (induction s)
  case Nil
  then show ?case by simp
next
  case (Cons c cs)
  then have cs: "fixUnescapedAmpersands cs = cs" by simp
  show ?case
  proof (cases "c = CHR ''&''")
    case True
    with Cons.prems have "entityAhead cs"
      by (auto simp add: namedRef_entityAhead decimalRef_entityAhead split: option.splits)
    with cs show ?thesis by simp
  next
    case False
    with cs show ?thesis by simp
  qed
qed

lemma not_letter_hash: "\<not> isLetter (CHR ''#'')"
  by (simp add: isLetter_def upperLetters_def lowerLetters_def)

lemma controlReplacement_legal:
  "legalCodePoint (digitsVal ds) \<Longrightarrow> controlReplacement ds = ''&#'' @ ds @ '';''"
  by (auto simp add: controlReplacement_def legalCodePoint_def Let_def)

lemma stripIllegalControlChars_clean: "cleanRefs s \<Longrightarrow> stripIllegalControlChars s = s"
proof (induction s rule: stripIllegalControlChars.induct)
  case 1
  then show ?case by simp
next
  case (2 c cs)
  show ?case
  proof (cases "decRef (c # cs)")
    case None
    have "cleanRefs cs" using "2.prems" by simp
    then have "stripIllegalControlChars cs = cs" by (rule "2.IH"(1)[OF None])
    with None show ?thesis by simp
  next
    case (Some x2)
    obtain ds rest where x2: "x2 = (ds, rest)" by (cases x2)
    have dr: "decRef (c # cs) = Some (ds, rest)" using Some x2 by simp
    have shape: "c # cs = ''&#'' @ ds @ '';'' @ rest" by (rule decRef_shape(1)[OF dr])
    then have c: "c = CHR ''&''" and cs: "cs = CHR ''#'' # ds @ '';'' @ rest" by simp_all
    have tk: "takeWhile isDigit (tl cs) = ds"
      using decRef_shape(2)[OF dr] by (simp add: drop_Suc)
    have dw: "dropWhile isDigit (tl cs) = CHR '';'' # rest"
      using decRef_shape(4)[OF dr] by (simp add: drop_Suc)
    have "\<not> namedRefAhead cs"
      unfolding cs by (simp add: namedRefAhead_def not_letter_hash)
    moreover have "decimalRefAhead cs = Some (digitsVal ds)"
      using decRef_shape(3)[OF dr] tk dw by (simp add: decimalRefAhead_def cs)
    ultimately have legal: "legalCodePoint (digitsVal ds)"
      using "2.prems" c by simp
    have "cleanRefs rest"
      using "2.prems" cleanRefs_suffix[of "''&#'' @ ds @ '';''" rest] shape by simp
    then have "stripIllegalControlChars rest = rest"
      using "2.IH"(2)[OF Some x2[symmetric]] by simp
    then have "stripIllegalControlChars (c # cs) = ''&#'' @ ds @ '';'' @ rest"
      using dr controlReplacement_legal[OF legal] by simp
    then show ?thesis using shape by simp
  qed
qed

lemma sanitizeXml_clean_after_strip:
  "cleanRefs (stripXmlDeclaration xml) \<Longrightarrow> sanitizeXml xml = stripXmlDeclaration xml"
  by (simp add: sanitizeXml_def Let_def stripIllegalControlChars_clean fixUnescapedAmpersands_clean)

lemma dropWhile_all: "list_all P ws \<Longrightarrow> dropWhile P (ws @ r) = dropWhile P r"
  by (induction ws) auto

lemma dropWhile_stop: "\<not> P c \<Longrightarrow> dropWhile P (a @ c # r) = dropWhile P a @ c # r"
  by (induction a) auto

lemma findDeclEnd_body:
  "list_all (\<lambda>c. \<not> isLineTerminator c) b \<Longrightarrow> \<not> str_includes b ''?>''
   \<Longrightarrow> findDeclEnd (b @ ''?>'' @ t) = Some t"
proof (induction b)
  case Nil
  then show ?case by simp
next
  case (Cons c b)
  have "\<not> startsWith (c # b) ''?>''" using Cons.prems(2) by auto
  then have "\<not> startsWith (c # b @ ''?>'' @ t) ''?>''"
    by (cases b) auto
  moreover have "\<not> isLineTerminator c" using Cons.prems(1) by simp
  moreover have "findDeclEnd (b @ ''?>'' @ t) = Some t"
    using Cons by simp
  ultimately show ?case by auto
qed

lemma list_all_dropWhile: "list_all P xs \<Longrightarrow> list_all P (dropWhile Q xs)"
  by (induction xs) auto

lemma str_includes_dropWhile:
  assumes "\<not> str_includes xs p"
  shows "\<not> str_includes (dropWhile Q xs) p"
proof
  assume "str_includes (dropWhile Q xs) p"
  then obtain a b where "dropWhile Q xs = a @ p @ b" by (auto simp add: str_includes_iff)
  then have "takeWhile Q xs @ dropWhile Q xs = (takeWhile Q xs @ a) @ p @ b" by simp
  then have "xs = (takeWhile Q xs @ a) @ p @ b" by simp
  then have "str_includes xs p" unfolding str_includes_iff by blast
  with assms show False by simp
qed

lemma not_ws_question: "\<not> isWhiteSpace (CHR ''?'')"
  by (simp add: isWhiteSpace_def)

lemma stripXmlDeclaration_header:
  assumes h: "toLowerCase h = ''<?xml''"
    and ws1: "ws1 \<noteq> []" "list_all isWhiteSpace ws1"
    and body: "list_all (\<lambda>c. \<not> isLineTerminator c) body" "\<not> str_includes body ''?>''"
    and ws2: "list_all isWhiteSpace ws2"
    and rest: "rest = [] \<or> \<not> isWhiteSpace (hd rest)"
  shows "stripXmlDeclaration (h @ ws1 @ body @ ''?>'' @ ws2 @ rest) = rest"
proof -
  define tail where "tail = ''?>'' @ ws2 @ rest"
  define R where "R = ws1 @ body @ tail"
  define B where "B = dropWhile isWhiteSpace body @ tail"
  have "length (toLowerCase h) = length ''<?xml''" using h by simp
  then have len: "length h = 5" by (simp add: toLowerCase_def)
  then have t5: "take 5 (h @ R) = h" and d5: "drop 5 (h @ R) = R" by simp_all
  have "dropWhile isWhiteSpace (body @ CHR ''?'' # (''>'' @ ws2 @ rest))
          = dropWhile isWhiteSpace body @ CHR ''?'' # (''>'' @ ws2 @ rest)"
    by (rule dropWhile_stop) (rule not_ws_question)
  then have "dropWhile isWhiteSpace (body @ tail) = B"
    by (simp add: tail_def B_def)
  then have r1: "dropWhile isWhiteSpace R = B"
    unfolding R_def using dropWhile_all[OF ws1(2), of "body @ tail"] by simp
  have "length B \<le> length (body @ tail)"
    unfolding B_def using length_dropWhile_le[of isWhiteSpace body] by simp
  also have "\<dots> < length R" unfolding R_def using ws1(1) by simp
  finally have neq: "length B \<noteq> length R" by simp
  have "findDeclEnd (dropWhile isWhiteSpace body @ ''?>'' @ (ws2 @ rest)) = Some (ws2 @ rest)"
    by (rule findDeclEnd_body)
       (rule list_all_dropWhile[OF body(1)], rule str_includes_dropWhile[OF body(2)])
  then have fd: "findDeclEnd B = Some (ws2 @ rest)" by (simp add: B_def tail_def)
  have fin: "dropWhile isWhiteSpace (ws2 @ rest) = rest"
    using dropWhile_all[OF ws2, of rest] rest by (cases rest) auto
  have "stripXmlDeclaration (h @ R) = rest"
    unfolding stripXmlDeclaration_def t5 d5 Let_def r1 using h neq fd fin by simp
  then show ?thesis by (simp add: R_def tail_def)
qed

lemma stripXmlDeclaration_no_header:
  "toLowerCase (take 5 xml) \<noteq> ''<?xml'' \<or> drop 5 xml = [] \<or> \<not> isWhiteSpace (hd (drop 5 xml))
   \<Longrightarrow> stripXmlDeclaration xml = xml"
  by (cases "drop 5 xml") (auto simp add: stripXmlDeclaration_def Let_def)

text \<open>
  Claim C8, as the code has it. On an input in which every ampersand starts a named
  reference (letters, then a semicolon) or a decimal reference to a legal code point,
  \<open>sanitizeXml\<close> returns the input unchanged when it does not begin with \<open><?xml\<close> and white
  space; and when the input is a one-line declaration header, the white space after it and
  then content, it returns that content: the header goes together with the white space that
  follows it, and everything after that is unchanged.
\<close>

theorem sanitizeXml_clean:
  "((toLowerCase (take 5 xml) \<noteq> ''<?xml'' \<or> drop 5 xml = [] \<or> \<not> isWhiteSpace (hd (drop 5 xml)))
      \<and> cleanRefs xml
     \<longrightarrow> sanitizeXml xml = xml)
   \<and> (toLowerCase h = ''<?xml'' \<and> ws1 \<noteq> [] \<and> list_all isWhiteSpace ws1
       \<and> list_all (\<lambda>c. \<not> isLineTerminator c) body \<and> \<not> str_includes body ''?>''
       \<and> list_all isWhiteSpace ws2 \<and> (rest = [] \<or> \<not> isWhiteSpace (hd rest))
       \<and> cleanRefs rest
     \<longrightarrow> sanitizeXml (h @ ws1 @ body @ ''?>'' @ ws2 @ rest) = rest)"
proof (intro conjI impI)
  assume a: "(toLowerCase (take 5 xml) \<noteq> ''<?xml'' \<or> drop 5 xml = [] \<or> \<not> isWhiteSpace (hd (drop 5 xml)))
      \<and> cleanRefs xml"
  then have "stripXmlDeclaration xml = xml" by (intro stripXmlDeclaration_no_header) simp
  with a show "sanitizeXml xml = xml" using sanitizeXml_clean_after_strip[of xml] by simp
next
  assume a: "toLowerCase h = ''<?xml'' \<and> ws1 \<noteq> [] \<and> list_all isWhiteSpace ws1
       \<and> list_all (\<lambda>c. \<not> isLineTerminator c) body \<and> \<not> str_includes body ''?>''
       \<and> list_all isWhiteSpace ws2 \<and> (rest = [] \<or> \<not> isWhiteSpace (hd rest))
       \<and> cleanRefs rest"
  then have "stripXmlDeclaration (h @ ws1 @ body @ ''?>'' @ ws2 @ rest) = rest"
    by (intro stripXmlDeclaration_header) simp_all
  with a show "sanitizeXml (h @ ws1 @ body @ ''?>'' @ ws2 @ rest) = rest"
    using sanitizeXml_clean_after_strip[of "h @ ws1 @ body @ ''?>'' @ ws2 @ rest"] by simp
qed

theorem sanitizeXml_clean_witness:
  "toLowerCase (take 5 ''<A>x &amp; y &#9;</A>'') \<noteq> ''<?xml''
   \<and> cleanRefs ''<A>x &amp; y &#9;</A>''
   \<and> sanitizeXml ''<A>x &amp; y &#9;</A>'' = ''<A>x &amp; y &#9;</A>''
   \<and> toLowerCase ''<?XML'' = ''<?xml'' \<and> '' '' \<noteq> [] \<and> list_all isWhiteSpace '' ''
   \<and> list_all (\<lambda>c. \<not> isLineTerminator c) ''version=\"1.0\" ''
   \<and> \<not> str_includes ''version=\"1.0\" '' ''?>''
   \<and> list_all isWhiteSpace [CHR 0x0A] \<and> \<not> isWhiteSpace (hd ''<A>&lt;</A>'')
   \<and> cleanRefs ''<A>&lt;</A>''
   \<and> sanitizeXml (''<?XML'' @ '' '' @ ''version=\"1.0\" '' @ ''?>'' @ [CHR 0x0A] @ ''<A>&lt;</A>'')
       = ''<A>&lt;</A>''"
  using sanitizeXml_clean [where xml = "''<A>x &amp; y &#9;</A>''" and h = "''<?XML''" and ?ws1.0 = "'' ''"
          and body = "''version=\"1.0\" ''" and ?ws2.0 = "[CHR 0x0A]" and rest = "''<A>&lt;</A>''"]
  by (simp add: toLowerCase_def toLowerChar_def upperLetters_def lowerLetters_def isWhiteSpace_def
        isLineTerminator_def namedRefAhead_def decimalRefAhead_def legalCodePoint_def isLetter_def
        isDigit_def digitsVal_def digitVal_def)

text \<open>
  Claim C8 as it is worded fails: the line break after the header is content that is not
  part of the header, and it is removed with it.
\<close>

theorem sanitizeXml_header_counterexample:
  "cleanRefs (''<?xml version=\"1.0\"?>'' @ CHR 0x0A # ''<A/>'')
   \<and> sanitizeXml (''<?xml version=\"1.0\"?>'' @ CHR 0x0A # ''<A/>'') \<noteq> CHR 0x0A # ''<A/>''"
  by (simp add: sanitizeXml_def stripXmlDeclaration_def toLowerCase_def toLowerChar_def
        upperLetters_def lowerLetters_def isWhiteSpace_def isLineTerminator_def decRef_def
        entityAhead_def)

text \<open>
  Two inputs that the statement above leaves aside: a hexadecimal character reference is
  not recognised by the look-ahead and its ampersand is escaped, and a header that runs over
  two lines is not removed.
\<close>

lemma sanitizeXml_escapes_hex_reference:
  "sanitizeXml ''<A>&#x41;</A>'' = ''<A>&amp;#x41;</A>''"
  by code_simp

lemma sanitizeXml_keeps_two_line_header:
  "sanitizeXml (''<?xml version=\"1.0\"'' @ CHR 0x0A # ''encoding=\"UTF-8\"?><A/>'')
     = ''<?xml version=\"1.0\"'' @ CHR 0x0A # ''encoding=\"UTF-8\"?><A/>''"
  by code_simp

section \<open>Properties of the normaliser\<close>

lemma normalizeVoucherType_first:
  "s \<noteq> [] \<Longrightarrow> str_includes (toLowerCase (trim s)) ''sales'' \<Longrightarrow> normalizeVoucherType (Some s) = Sales"
  by (simp add: normalizeVoucherType_def truthy_def voucherTypeRules_def)

lemma normalizeVoucherType_second:
  "s \<noteq> [] \<Longrightarrow> \<not> str_includes (toLowerCase (trim s)) ''sales''
   \<Longrightarrow> str_includes (toLowerCase (trim s)) ''purchase'' \<Longrightarrow> normalizeVoucherType (Some s) = Purchase"
  by (simp add: normalizeVoucherType_def truthy_def voucherTypeRules_def)

text \<open>
  Claim C9, as the code has it. The rules are tried in the order of the source, the generic
  patterns first. A type whose lowercased form contains \<open>sales order\<close> is \<open>Sales\<close>. A type
  whose lowercased form contains \<open>purchase order\<close> is \<open>Purchase\<close>, unless it also contains
  \<open>sales\<close>: the rule for \<open>sales\<close> comes first and makes it \<open>Sales\<close>. The results
  \<open>Sales Order\<close> and \<open>Purchase Order\<close> are never returned.
\<close>

theorem normalizeVoucherType_orders:
  "(str_includes (toLowerCase s) ''sales order'' \<longrightarrow> normalizeVoucherType (Some s) = Sales)
   \<and> (str_includes (toLowerCase s) ''purchase order'' \<longrightarrow>
        normalizeVoucherType (Some s)
          = (if str_includes (toLowerCase s) ''sales'' then Sales else Purchase))
   \<and> normalizeVoucherType r \<noteq> Sales_Order
   \<and> normalizeVoucherType r \<noteq> Purchase_Order"
proof (intro conjI impI)
  assume h: "str_includes (toLowerCase s) ''sales order''"
  then have ne: "s \<noteq> []" by (rule includes_nonempty) simp
  from h have "str_includes (toLowerCase s) (''sales'' @ '' order'')" by simp
  then have "str_includes (toLowerCase s) ''sales''" by (rule str_includes_prefix)
  then have "str_includes (toLowerCase (trim s)) ''sales''"
    by (subst includes_lower_trim) (simp_all add: isWhiteSpace_def)
  with ne show "normalizeVoucherType (Some s) = Sales" by (rule normalizeVoucherType_first)
next
  assume h: "str_includes (toLowerCase s) ''purchase order''"
  then have ne: "s \<noteq> []" by (rule includes_nonempty) simp
  from h have "str_includes (toLowerCase s) (''purchase'' @ '' order'')" by simp
  then have "str_includes (toLowerCase s) ''purchase''" by (rule str_includes_prefix)
  then have p: "str_includes (toLowerCase (trim s)) ''purchase''"
    by (subst includes_lower_trim) (simp_all add: isWhiteSpace_def)
  have s: "str_includes (toLowerCase (trim s)) ''sales'' \<longleftrightarrow> str_includes (toLowerCase s) ''sales''"
    by (rule includes_lower_trim) (simp_all add: isWhiteSpace_def)
  show "normalizeVoucherType (Some s)
          = (if str_includes (toLowerCase s) ''sales'' then Sales else Purchase)"
    using ne p s normalizeVoucherType_first[of s] normalizeVoucherType_second[of s] by auto
next
  have so: "\<And>n. \<not> str_includes n ''sales'' \<Longrightarrow> \<not> str_includes n ''sales order''"
    using str_includes_prefix[of _ "''sales''" "'' order''"] by auto
  show "normalizeVoucherType r \<noteq> Sales_Order"
    by (simp add: normalizeVoucherType_def voucherTypeRules_def so)
  have po: "\<And>n. \<not> str_includes n ''purchase'' \<Longrightarrow> \<not> str_includes n ''purchase order''"
    using str_includes_prefix[of _ "''purchase''" "'' order''"] by auto
  show "normalizeVoucherType r \<noteq> Purchase_Order"
    by (simp add: normalizeVoucherType_def voucherTypeRules_def po)
qed

theorem normalizeVoucherType_orders_witness:
  "str_includes (toLowerCase ''Sales Order'') ''sales order''
   \<and> normalizeVoucherType (Some ''Sales Order'') = Sales
   \<and> str_includes (toLowerCase ''Purchase Order'') ''purchase order''
   \<and> normalizeVoucherType (Some ''Purchase Order'') = Purchase"
  using normalizeVoucherType_orders[of "''Sales Order''"] normalizeVoucherType_orders[of "''Purchase Order''"]
  by (simp add: toLowerCase_def toLowerChar_def upperLetters_def lowerLetters_def)

text \<open>
  Claim C9 as it is worded fails on a type that contains \<open>purchase order\<close> and \<open>sales\<close>.
\<close>

theorem normalizeVoucherType_purchase_order_counterexample:
  "str_includes (toLowerCase ''Purchase Order (Sales Dept)'') ''purchase order''
   \<and> normalizeVoucherType (Some ''Purchase Order (Sales Dept)'') \<noteq> Purchase"
  by (simp add: normalizeVoucherType_def truthy_def voucherTypeRules_def trim_def trimStart_def trimEnd_def
        isWhiteSpace_def toLowerCase_def toLowerChar_def upperLetters_def lowerLetters_def)

text \<open>
  Claim C10. Every stock item that \<open>normalizeStockItem\<close> returns has as \<open>openingFYYear\<close>
  the fiscal year of the current instant: the current year from April on, the year before
  from January to March; nothing of the element normalised enters it.
\<close>

theorem normalizeStockItem_openingFYYear:
  assumes "normalizeStockItem rnd pf now r unitMap = Inr (Some item)"
  shows "openingFYYear item
           = (if getMonth now \<ge> 3 then getFullYear now else getFullYear now - 1)"
proof -
  have "openingFYYear item = getCurrentFYStartYear now"
    using assms unfolding normalizeStockItem_def Let_def
    by (auto dest!: thenDo_Inr split: if_splits)
  then show ?thesis by (simp add: getCurrentFYStartYear_def getFYFromDate_def)
qed

lemma sample_now_fields: "getMonth 1718150400000 = 5" "getFullYear 1718150400000 = 2024"
  by code_simp+

lemma sample_item_accepted:
  "normalizeStockItem toDouble parseDecimal 1718150400000 sample_stock_element []
     = Inr (Some (the (projr
         (normalizeStockItem toDouble parseDecimal 1718150400000 sample_stock_element []))))"
  by (simp add: normalizeStockItem_def sample_stock_element_def rawTruthy_def extractName_def
        property_def truthyV_def orV_def orLit_def onText_def thenDo_def listOf_def
        trim_def trimStart_def trimEnd_def isWhiteSpace_def Let_def)

theorem normalizeStockItem_openingFYYear_witness:
  "normalizeStockItem toDouble parseDecimal 1718150400000 sample_stock_element []
     = Inr (Some (the (projr
         (normalizeStockItem toDouble parseDecimal 1718150400000 sample_stock_element []))))
   \<and> openingFYYear (the (projr
         (normalizeStockItem toDouble parseDecimal 1718150400000 sample_stock_element [])))
     = 2024"
  using normalizeStockItem_openingFYYear
          [of toDouble parseDecimal 1718150400000 sample_stock_element "[]"
              "the (projr
                 (normalizeStockItem toDouble parseDecimal 1718150400000 sample_stock_element []))"]
        sample_item_accepted
  by (simp add: sample_now_fields)
section \<open>Properties of the worker\<close>

lemma onText_plain:
  "textOrAbsent v \<Longrightarrow> onText f v = Inr (f (textOf v))"
  by (auto simp add: onText_def textOrAbsent_def textOf_def split: option.splits raw.splits)

lemma orLit_plain:
  "textOrAbsent v \<Longrightarrow> textOrAbsent (Some (orLit v d))"
  by (auto simp add: orLit_def textOrAbsent_def truthyV_def split: option.splits raw.splits)

text \<open>
  A voucher whose type is a text, or absent, and whose date fails to parse is answered with
  \<open>null\<close>, whatever else it holds.
\<close>

lemma normalizeVoucher_bad_date:
  assumes "dateFailsToParse r" "voucherTypeIsText r"
  shows "normalizeVoucher rnd pf r = Inr None"
proof -
  have t: "onText normalizeVoucherType
             (Some (orLit (orV (property r ''VOUCHERTYPE'') (property r ''VOUCHERTYPENAME'')) ''Other''))
           = Inr (normalizeVoucherType (textOf
               (Some (orLit (orV (property r ''VOUCHERTYPE'') (property r ''VOUCHERTYPENAME'')) ''Other''))))"
    using assms(2) by (intro onText_plain orLit_plain) (simp add: voucherTypeIsText_def)
  have d: "onText parseTallyDate (orV (property r ''DATE'') (property r ''@DATE'')) = Inr None"
    using assms(1) by (simp add: dateFailsToParse_def onText_plain)
  show ?thesis
    by (simp add: normalizeVoucher_def Let_def t d thenDo_def)
qed

lemma extractVoucher_bad_date:
  "dateFailsToParse r \<Longrightarrow> voucherTypeIsText r \<Longrightarrow> extractVoucher rnd pf pd r = Inr pd"
  by (simp add: extractVoucher_def normalizeVoucher_bad_date thenDo_def)

text \<open>A voucher whose date is delivered as an object makes \<open>normalizeVoucher\<close> throw.\<close>

lemma normalizeVoucher_object_date:
  assumes "rawTruthy r"
    and "truthyV (orV (property r ''VOUCHERNUMBER'') (property r ''@VOUCHERNUMBER''))"
    and "voucherTypeIsText r"
    and "property r ''DATE'' = Some (RObj ps)"
  shows "normalizeVoucher rnd pf r = Inl TypeError"
proof -
  have t: "onText normalizeVoucherType
             (Some (orLit (orV (property r ''VOUCHERTYPE'') (property r ''VOUCHERTYPENAME'')) ''Other''))
           = Inr (normalizeVoucherType (textOf
               (Some (orLit (orV (property r ''VOUCHERTYPE'') (property r ''VOUCHERTYPENAME'')) ''Other''))))"
    using assms(3) by (intro onText_plain orLit_plain) (simp add: voucherTypeIsText_def)
  have n: "rawTruthy (orLit (orV (property r ''VOUCHERNUMBER'') (property r ''@VOUCHERNUMBER'')) [])"
    using assms(2) by (auto simp add: orLit_def truthyV_def split: option.splits)
  have d: "onText parseTallyDate (orV (property r ''DATE'') (property r ''@DATE'')) = Inl TypeError"
    using assms(4) by (simp add: onText_def orV_def truthyV_def rawTruthy_def)
  show ?thesis
    using assms(1) n by (simp add: normalizeVoucher_def Let_def t d thenDo_def)
qed

subsection \<open>The message block that holds the voucher\<close>

text \<open>
  A message block is read through its properties \<open>COMPANY\<close>, \<open>UNIT.LIST\<close>, \<open>LEDGER.LIST\<close>,
  \<open>STOCKITEM.LIST\<close> and \<open>VOUCHER.LIST\<close>. Two blocks that differ in the last only, one
  having there a voucher that is dropped and the other not having it, are processed alike.
\<close>

lemma processMessage_drops:
  assumes "dateFailsToParse bad" "voucherTypeIsText bad"
    and vm: "property m ''VOUCHER.LIST'' = Some (RList (xs @ bad # ys))"
    and vm': "property m' ''VOUCHER.LIST'' = Some (RList (xs @ ys))"
    and other: "\<forall>k. k \<noteq> ''VOUCHER.LIST'' \<longrightarrow> property m' k = property m k"
  shows "processMessage rnd pf now pd m = processMessage rnd pf now pd m'"
proof -
  have c: "extractCompany pd m' = extractCompany pd m"
    by (simp add: extractCompany_def other)
  have k: "property m' ''UNIT.LIST'' = property m ''UNIT.LIST''"
    "property m' ''LEDGER.LIST'' = property m ''LEDGER.LIST''"
    "property m' ''STOCKITEM.LIST'' = property m ''STOCKITEM.LIST''"
    by (simp_all add: other)
  have v: "\<And>pd4. foldThrowing (extractVoucher rnd pf) pd4 (xs @ bad # ys)
                 = foldThrowing (extractVoucher rnd pf) pd4 (xs @ ys)"
    by (rule foldThrowing_skip) (rule extractVoucher_bad_date[OF assms(1,2)])
  show ?thesis
    unfolding processMessage_def Let_def c k vm vm' iterate_list thenDo_returned v ..
qed

subsection \<open>No warning is ever recorded\<close>

lemma warnings_extractCompany: "warnings (extractCompany pd m) = warnings pd"
  by (simp add: extractCompany_def Let_def split: option.splits)

lemma warnings_extractUnit: "extractUnit pf pd x = Inr pd' \<Longrightarrow> warnings pd' = warnings pd"
  by (auto simp add: extractUnit_def thenDo_def split: sum.splits option.splits)

lemma warnings_extractLedger: "extractLedger pf pd x = Inr pd' \<Longrightarrow> warnings pd' = warnings pd"
  by (auto simp add: extractLedger_def thenDo_def split: sum.splits option.splits)

lemma warnings_extractStockItem:
  "extractStockItem rnd pf now pd x = Inr pd' \<Longrightarrow> warnings pd' = warnings pd"
  by (auto simp add: extractStockItem_def thenDo_def split: sum.splits option.splits)

lemma warnings_extractVoucher:
  "extractVoucher rnd pf pd x = Inr pd' \<Longrightarrow> warnings pd' = warnings pd"
  by (auto simp add: extractVoucher_def thenDo_def split: sum.splits option.splits)

lemma warnings_processMessage:
  assumes "processMessage rnd pf now pd m = Inr pd'"
  shows "warnings pd' = warnings pd"
proof -
  from assms obtain unitsList pd2 ledgersList pd3 stockItemsList pd4 vouchersList where
    u: "foldThrowing (extractUnit pf) (extractCompany pd m) unitsList = Inr pd2"
    and l: "foldThrowing (extractLedger pf) pd2 ledgersList = Inr pd3"
    and i: "foldThrowing (extractStockItem rnd pf now) pd3 stockItemsList = Inr pd4"
    and v: "foldThrowing (extractVoucher rnd pf) pd4 vouchersList = Inr pd'"
    unfolding processMessage_def Let_def
    by (auto dest!: thenDo_Inr)
  have "warnings pd' = warnings pd4"
    using warnings_extractVoucher v by (rule foldThrowing_invariant)
  also have "\<dots> = warnings pd3"
    using warnings_extractStockItem i by (rule foldThrowing_invariant)
  also have "\<dots> = warnings pd2"
    using warnings_extractLedger l by (rule foldThrowing_invariant)
  also have "\<dots> = warnings (extractCompany pd m)"
    using warnings_extractUnit u by (rule foldThrowing_invariant)
  finally show ?thesis by (simp add: warnings_extractCompany)
qed

lemma warnings_processMessages:
  assumes "processMessages rnd pf now f msgs = Inr pd"
  shows "warnings pd = []"
proof -
  have "warnings pd = warnings (initialParsedData now f)"
    using warnings_processMessage assms[unfolded processMessages_def]
    by (rule foldThrowing_invariant)
  then show ?thesis by (simp add: initialParsedData_def)
qed

text \<open>
  Claim C7, as the code has it. A \<open>VOUCHER\<close> element whose date is absent, or is a text that
  does not parse, and whose type is absent or a text, is dropped and nothing else changes:
  \<open>normalizeVoucher\<close> answers \<open>null\<close>, and the outcome for the file, a batch or a failure, is
  the one that the document without that element gives, so the elements and the message
  blocks after it are processed and the dropped voucher causes no failure. No warning is
  recorded: the list of warnings of a batch is empty. The document is any list of message
  blocks, the element at any place of the \<open>VOUCHER.LIST\<close> of one of them, \<open>m\<close>; the document
  without the element has in its place a block \<open>m'\<close> with the same properties but for that
  element.
\<close>

theorem bad_date_voucher_dropped:
  assumes "dateFailsToParse bad" "voucherTypeIsText bad"
    and "property m ''VOUCHER.LIST'' = Some (RList (xs @ bad # ys))"
    and "property m' ''VOUCHER.LIST'' = Some (RList (xs @ ys))"
    and "\<forall>k. k \<noteq> ''VOUCHER.LIST'' \<longrightarrow> property m' k = property m k"
  shows "normalizeVoucher rnd pf bad = Inr None
       \<and> processMessages rnd pf now f (ms1 @ m # ms2)
           = processMessages rnd pf now f (ms1 @ m' # ms2)
       \<and> respond rnd pf now f (Inr (ms1 @ m # ms2))
           = respond rnd pf now f (Inr (ms1 @ m' # ms2))
       \<and> (case processMessages rnd pf now f (ms1 @ m # ms2) of
             Inl e \<Rightarrow> True
           | Inr parsedData \<Rightarrow> warnings parsedData = [])"
proof -
  have p: "processMessages rnd pf now f (ms1 @ m # ms2)
           = processMessages rnd pf now f (ms1 @ m' # ms2)"
    unfolding processMessages_def
    by (rule foldThrowing_cong_elem) (rule processMessage_drops[OF assms])
  have w: "case processMessages rnd pf now f (ms1 @ m # ms2) of
             Inl e \<Rightarrow> True
           | Inr parsedData \<Rightarrow> warnings parsedData = []"
    by (auto split: sum.splits dest: warnings_processMessages)
  show ?thesis
    using p w normalizeVoucher_bad_date[OF assms(1,2)] by (simp add: respond_def)
qed

lemma sample_bad_date:
  "dateFailsToParse (sample_voucher_element ''2'' (RText ''2024-04-02''))"
  "voucherTypeIsText (sample_voucher_element ''2'' (RText ''2024-04-02''))"
  by (simp_all add: dateFailsToParse_def voucherTypeIsText_def sample_voucher_element_def
        property_def orV_def truthyV_def rawTruthy_def textOrAbsent_def textOf_def
        parseTallyDate_def truthy_def trim_def trimStart_def trimEnd_def isWhiteSpace_def)

lemma sample_without_bad_date:
  "map_sum (\<lambda>e. e) (\<lambda>parsedData. map voucherNumber (vouchers parsedData))
     (processMessages toDouble parseDecimal 0 ''Transactions.xml''
        ([] @ sample_message [sample_voucher_element ''1'' (RText ''20240401''),
                              sample_voucher_element ''3'' (RText ''20240403'')] # []))
     = Inr [RText ''1'', RText ''3'']"
  by code_simp

theorem bad_date_voucher_dropped_witness:
  "dateFailsToParse (sample_voucher_element ''2'' (RText ''2024-04-02''))
   \<and> voucherTypeIsText (sample_voucher_element ''2'' (RText ''2024-04-02''))
   \<and> map_sum (\<lambda>e. e) (\<lambda>parsedData. map voucherNumber (vouchers parsedData))
       (processMessages toDouble parseDecimal 0 ''Transactions.xml''
          ([] @ sample_message [sample_voucher_element ''1'' (RText ''20240401''),
                                sample_voucher_element ''2'' (RText ''2024-04-02''),
                                sample_voucher_element ''3'' (RText ''20240403'')] # []))
       = Inr [RText ''1'', RText ''3'']"
proof -
  have vm: "property (sample_message [sample_voucher_element ''1'' (RText ''20240401''),
                                      sample_voucher_element ''2'' (RText ''2024-04-02''),
                                      sample_voucher_element ''3'' (RText ''20240403'')])
              ''VOUCHER.LIST''
            = Some (RList ([sample_voucher_element ''1'' (RText ''20240401'')]
                           @ sample_voucher_element ''2'' (RText ''2024-04-02'')
                           # [sample_voucher_element ''3'' (RText ''20240403'')]))"
    by (simp add: sample_message_def property_def)
  have vm': "property (sample_message [sample_voucher_element ''1'' (RText ''20240401''),
                                       sample_voucher_element ''3'' (RText ''20240403'')])
              ''VOUCHER.LIST''
            = Some (RList ([sample_voucher_element ''1'' (RText ''20240401'')]
                           @ [sample_voucher_element ''3'' (RText ''20240403'')]))"
    by (simp add: sample_message_def property_def)
  have other: "\<forall>k. k \<noteq> ''VOUCHER.LIST'' \<longrightarrow>
      property (sample_message [sample_voucher_element ''1'' (RText ''20240401''),
                                sample_voucher_element ''3'' (RText ''20240403'')]) k
      = property (sample_message [sample_voucher_element ''1'' (RText ''20240401''),
                                  sample_voucher_element ''2'' (RText ''2024-04-02''),
                                  sample_voucher_element ''3'' (RText ''20240403'')]) k"
    by (simp add: sample_message_def property_def)
  show ?thesis
    using bad_date_voucher_dropped[OF sample_bad_date vm vm' other, where rnd = toDouble
        and pf = parseDecimal and now = 0 and f = "''Transactions.xml''"
        and ?ms1.0 = "[]" and ?ms2.0 = "[]"]
      sample_bad_date sample_without_bad_date
    by simp
qed

text \<open>
  Claim C7 as it is worded fails: it has a warning appended for the dropped voucher, and
  the list of warnings of the batch is empty after a document with such a voucher.
\<close>

theorem bad_date_voucher_no_warning_counterexample:
  "dateFailsToParse (sample_voucher_element ''2'' (RText ''2024-04-02''))
   \<and> map_sum (\<lambda>e. e) warnings
       (processMessages toDouble parseDecimal 0 ''Transactions.xml''
          [sample_message
             [sample_voucher_element ''1'' (RText ''20240401''),
              sample_voucher_element ''2'' (RText ''2024-04-02''),
              sample_voucher_element ''3'' (RText ''20240403'')]])
       = Inr []"
  by code_simp

text \<open>
  The same document with the date of the second voucher delivered as an object, as the
  parser does for an element that carries an attribute: the worker answers a failure for
  the whole file.
\<close>

lemma object_date_fails_file:
  "respond toDouble parseDecimal 0 ''Transactions.xml''
     (Inr [sample_message
             [sample_voucher_element ''1'' (RText ''20240401''),
              sample_voucher_element ''2''
                (RObj [(''#text'', RText ''20240402''), (''@TYPE'', RText ''Date'')]),
              sample_voucher_element ''3'' (RText ''20240403'')]])
     = Failure TypeError ''Transactions.xml''"
  by code_simp
end
